theory Spec2Isabelle
  imports Complex_Main "HOL-Library.Sublist"
begin

text \<open>
  The occurrence-data curation pipeline of \<open>gbifcurador.py\<close> and the boundary check of
  \<open>vsSHP_BUFFER.py\<close>, as functions over an explicit model of DataFrames. The network
  services, the date parser and the textual rendering of numbers are parameters, collected
  in the record \<open>services\<close>; an exception of the program is a value \<open>Inl e\<close>.
\<close>

section \<open>Data model\<close>

text \<open>
  A cell of a pandas DataFrame, or a value of a JSON record returned by a service.
  \<open>Null\<close> stands for a missing value (None, NaN and NaT, which pandas treats alike when it
  tests for null, compares rows and collects distinct values). Floats are idealised as
  rationals; their textual rendering is not computed here but supplied by the runtime
  (\<open>py_str\<close> below).
\<close>

datatype cell = Null | Num rat | Str string | Bool bool | Timestamp int

datatype error =
    KeyError "string list"
  | TypeError
  | GeocoderTimedOut
  | ServiceError string

type_synonym row = "cell list"

type_synonym json_record = "(string \<times> cell) list"

text \<open>
  A DataFrame: the column labels and the rows, each row holding one cell per column, in the
  order of the labels. The row index of pandas is left out: no operation of the program reads it.
\<close>

record dataframe =
  columns :: "string list"
  rows :: "row list"

text \<open>What \<open>pd.to_datetime(x, errors='coerce')\<close> gives: NaT, a naive timestamp, or a
  timestamp with a time zone (which cannot be compared with the naive bounds).\<close>

datatype parsed = NaT | Naive int | Aware int

text \<open>The collaborators of the program: the Python runtime's \<open>str\<close>, pandas' date parser
  and the three network services.\<close>

record services =
  py_str :: "cell \<Rightarrow> string"
  to_datetime :: "cell \<Rightarrow> parsed"
  occurrences_search :: "string \<Rightarrow> int \<Rightarrow> int \<Rightarrow> error + json_record list"
  name_backbone :: "cell \<Rightarrow> error + json_record"
  geolocator_reverse :: "cell \<times> cell \<Rightarrow> nat \<Rightarrow> error + string option"

section \<open>pandas primitives\<close>

text \<open>Distinct values in first-seen order (\<open>Series.unique\<close>, \<open>drop_duplicates\<close> with its
  default \<open>keep='first'\<close>).\<close>

fun unique_aux :: "'a list \<Rightarrow> 'a list \<Rightarrow> 'a list" where
  "unique_aux seen [] = []"
| "unique_aux seen (x # xs) =
     (if x \<in> set seen then unique_aux seen xs else x # unique_aux (x # seen) xs)"

definition unique :: "'a list \<Rightarrow> 'a list" where
  "unique xs = unique_aux [] xs"

text \<open>The cell of a row under a column label; a row too short for its frame reads as missing.\<close>

definition cell_of :: "string list \<Rightarrow> row \<Rightarrow> string \<Rightarrow> cell" where
  "cell_of cols r name = (case map_of (zip cols r) name of Some v \<Rightarrow> v | None \<Rightarrow> Null)"

text \<open>\<open>df.loc[:, name] = df[name].apply(f)\<close> on one row.\<close>

definition set_cell :: "string list \<Rightarrow> string \<Rightarrow> (cell \<Rightarrow> cell) \<Rightarrow> row \<Rightarrow> row" where
  "set_cell cols name f r = map (\<lambda>(c, v). if c = name then f v else v) (zip cols r)"

text \<open>\<open>pd.DataFrame(records)\<close> for a list of dicts: the columns are the keys in first-seen
  order, a key absent from a record gives a missing cell, and no record gives no column.\<close>

definition DataFrame :: "json_record list \<Rightarrow> dataframe" where
  "DataFrame records =
     (let cols = unique (concat (map (map fst) records))
      in \<lparr>columns = cols,
          rows = map (\<lambda>r. map (\<lambda>c. case map_of r c of Some v \<Rightarrow> v | None \<Rightarrow> Null) cols) records\<rparr>)"

section \<open>gbifcurador.py\<close>

subsection \<open>fetch_all_gbif_data\<close>

text \<open>\<open>species_name.replace(' ', '%20')\<close>: \<open>str.replace\<close> for a pattern of one character.\<close>

primrec replace_char :: "char \<Rightarrow> string \<Rightarrow> string \<Rightarrow> string" where
  "replace_char old new [] = []"
| "replace_char old new (c # cs) =
     (if c = old then new @ replace_char old new cs else c # replace_char old new cs)"

text \<open>
  The \<open>while True\<close> loop. The state is \<open>all_records\<close> and \<open>offset\<close>; \<open>reqs\<close> logs the offsets
  requested so far. A failed request propagates. The loop need not end: \<open>None\<close> is a run
  that never returns.
\<close>

partial_function (option) fetch_loop ::
  "(int \<Rightarrow> error + json_record list) \<Rightarrow> int \<Rightarrow> json_record list \<Rightarrow> int \<Rightarrow> int list
     \<Rightarrow> (int list \<times> (error + json_record list)) option" where
  "fetch_loop search limit_per_request all_records offset reqs =
     (case search offset of
        Inl e \<Rightarrow> Some (reqs @ [offset], Inl e)
      | Inr records \<Rightarrow>
          if records = [] then Some (reqs @ [offset], Inr all_records)
          else fetch_loop search limit_per_request (all_records @ records)
                 (offset + limit_per_request) (reqs @ [offset]))"

declare fetch_loop.simps [code]

definition gbif_url :: "string \<Rightarrow> string" where
  "gbif_url species_name =
     ''https://www.gbif.org/occurrence/search?scientificName='' @
       replace_char (CHR '' '') ''%20'' species_name"

text \<open>The result: the offsets requested, and the error or the DataFrame with the URL.\<close>

definition fetch_all_gbif_data ::
  "services \<Rightarrow> string \<Rightarrow> int \<Rightarrow> (int list \<times> (error + dataframe \<times> string)) option" where
  "fetch_all_gbif_data env species_name limit_per_request =
     (case fetch_loop (occurrences_search env species_name limit_per_request)
             limit_per_request [] 0 [] of
        None \<Rightarrow> None
      | Some (reqs, Inl e) \<Rightarrow> Some (reqs, Inl e)
      | Some (reqs, Inr all_records) \<Rightarrow>
          Some (reqs, Inr (DataFrame all_records, gbif_url species_name)))"

subsection \<open>initial_cleaning\<close>

definition required_columns :: "string list" where
  "required_columns =
     [''species'', ''decimalLatitude'', ''decimalLongitude'', ''country'', ''eventDate'',
      ''basisOfRecord'', ''institutionCode'', ''identificationID'', ''identifiedBy'']"

text \<open>\<open>df[columns]\<close> raises KeyError for the labels that are missing.\<close>

definition initial_cleaning :: "dataframe \<Rightarrow> error + dataframe" where
  "initial_cleaning df =
     (let missing = filter (\<lambda>c. c \<notin> set (columns df)) required_columns
      in if missing \<noteq> [] then Inl (KeyError missing)
         else Inr \<lparr>columns = required_columns,
                   rows = unique (map (\<lambda>r. map (cell_of (columns df) r) required_columns)
                                     (rows df))\<rparr>)"

subsection \<open>validate_data\<close>

text \<open>\<open>s.split('.')\<close>.\<close>

fun split_on :: "char \<Rightarrow> string \<Rightarrow> string list" where
  "split_on sep [] = [[]]"
| "split_on sep (c # cs) =
     (if c = sep then [] # split_on sep cs
      else (case split_on sep cs of
              [] \<Rightarrow> [[c]]
            | w # ws \<Rightarrow> (c # w) # ws))"

text \<open>\<open>valid_decimals\<close>: the field of index 1 of the rendering split at the dots; the
  IndexError of a rendering without a dot is caught and gives False.\<close>

definition valid_decimals :: "services \<Rightarrow> cell \<Rightarrow> bool" where
  "valid_decimals env v =
     (case split_on (CHR ''.'') (py_str env v) of
        _ # decimal_places # _ \<Rightarrow> 3 \<le> length decimal_places \<and> length decimal_places \<le> 8
      | _ \<Rightarrow> False)"

text \<open>\<open>Series.between(lo, hi)\<close> on one cell: inclusive; a missing value is outside; a string
  or a timestamp cannot be compared with a number.\<close>

fun between :: "rat \<Rightarrow> rat \<Rightarrow> cell \<Rightarrow> error + bool" where
  "between lo hi (Num x) = Inr (lo \<le> x \<and> x \<le> hi)"
| "between lo hi Null = Inr False"
| "between lo hi (Bool b) = Inr (lo \<le> of_bool b \<and> of_bool b \<le> hi)"
| "between lo hi _ = Inl TypeError"

text \<open>Rounding to the nearest integer, ties to the even one, as numpy rounds.\<close>

definition rint :: "rat \<Rightarrow> int" where
  "rint x =
     (let f = \<lfloor>x\<rfloor>; d = x - of_int f
      in if d < 1 / 2 then f else if 1 / 2 < d then f + 1 else if even f then f else f + 1)"

fun round8 :: "cell \<Rightarrow> cell" where
  "round8 (Num x) = Num (of_int (rint (x * 10 ^ 8)) / 10 ^ 8)"
| "round8 c = c"

text \<open>\<open>is_valid_date\<close>: the parsed timestamp when it lies between the bounds, NaT otherwise;
  the comparison of a timestamp that has a time zone raises, which is caught.\<close>

definition is_valid_date :: "services \<Rightarrow> int \<Rightarrow> int \<Rightarrow> cell \<Rightarrow> cell" where
  "is_valid_date env min_date max_date date =
     (case to_datetime env date of
        Naive t \<Rightarrow> if min_date \<le> t \<and> t \<le> max_date then Timestamp t else Null
      | _ \<Rightarrow> Null)"

text \<open>The row mask of the coordinate filter, given that no comparison raised.\<close>

definition coord_mask :: "services \<Rightarrow> string list \<Rightarrow> row \<Rightarrow> bool" where
  "coord_mask env cols r =
     (between (- 90) 90 (cell_of cols r ''decimalLatitude'') = Inr True \<and>
      between (- 180) 180 (cell_of cols r ''decimalLongitude'') = Inr True \<and>
      valid_decimals env (cell_of cols r ''decimalLatitude'') \<and>
      valid_decimals env (cell_of cols r ''decimalLongitude''))"

definition validate_data ::
  "services \<Rightarrow> dataframe \<Rightarrow> int \<Rightarrow> int \<Rightarrow> error + (dataframe \<times> nat \<times> nat \<times> nat)" where
  "validate_data env df min_date max_date =
     (let cols = columns df;
          initial_count = length (rows df)
      in if ''decimalLatitude'' \<notin> set cols then Inl (KeyError [''decimalLatitude''])
         else if list_ex (\<lambda>r. between (- 90) 90 (cell_of cols r ''decimalLatitude'')
                                  = Inl TypeError) (rows df)
           then Inl TypeError
         else if ''decimalLongitude'' \<notin> set cols then Inl (KeyError [''decimalLongitude''])
         else if list_ex (\<lambda>r. between (- 180) 180 (cell_of cols r ''decimalLongitude'')
                                  = Inl TypeError) (rows df)
           then Inl TypeError
         else
           let kept = filter (coord_mask env cols) (rows df);
               rounded = map (set_cell cols ''decimalLongitude'' round8 \<circ>
                              set_cell cols ''decimalLatitude'' round8) kept;
               coord_valid_count = length rounded
           in if ''eventDate'' \<notin> set cols then Inl (KeyError [''eventDate''])
              else
                let dated = map (set_cell cols ''eventDate''
                                   (is_valid_date env min_date max_date)) rounded;
                    final = filter (\<lambda>r. cell_of cols r ''eventDate'' \<noteq> Null) dated
                in Inr (\<lparr>columns = cols, rows = final\<rparr>,
                        initial_count, coord_valid_count, length final))"

subsection \<open>validate_taxonomic_name, taxonomic_validation\<close>

text \<open>Python's truth value of a cell (\<open>Null\<close> is None here: the values come from JSON).\<close>

fun truthy :: "cell \<Rightarrow> bool" where
  "truthy Null = False"
| "truthy (Num x) = (x \<noteq> 0)"
| "truthy (Str s) = (s \<noteq> [])"
| "truthy (Bool b) = b"
| "truthy (Timestamp t) = True"

text \<open>The usage key of the match, or None (\<open>Null\<close>) for the match type \<open>'NONE'\<close>. A failed
  lookup propagates, and so does the KeyError of a match without the key that is read.\<close>

definition validate_taxonomic_name :: "services \<Rightarrow> cell \<Rightarrow> error + cell" where
  "validate_taxonomic_name env name =
     (case name_backbone env name of
        Inl e \<Rightarrow> Inl e
      | Inr match \<Rightarrow>
          (case map_of match ''matchType'' of
             None \<Rightarrow> Inl (KeyError [''matchType''])
           | Some match_type \<Rightarrow>
               if match_type \<noteq> Str ''NONE''
               then (case map_of match ''usageKey'' of
                       None \<Rightarrow> Inl (KeyError [''usageKey''])
                     | Some usage_key \<Rightarrow> Inr usage_key)
               else Inr Null))"

text \<open>The loop over the distinct names, with \<open>valid_species\<close> as its state.\<close>

fun valid_species_loop :: "services \<Rightarrow> cell list \<Rightarrow> cell list \<Rightarrow> error + cell list" where
  "valid_species_loop env valid_species [] = Inr valid_species"
| "valid_species_loop env valid_species (name # names) =
     (case validate_taxonomic_name env name of
        Inl e \<Rightarrow> Inl e
      | Inr k \<Rightarrow>
          valid_species_loop env
            (if truthy k then valid_species @ [name] else valid_species) names)"

definition taxonomic_validation :: "services \<Rightarrow> dataframe \<Rightarrow> error + (dataframe \<times> nat)" where
  "taxonomic_validation env df =
     (let cols = columns df
      in if ''species'' \<notin> set cols then Inl (KeyError [''species''])
         else
           (case valid_species_loop env []
                   (unique (map (\<lambda>r. cell_of cols r ''species'') (rows df))) of
              Inl e \<Rightarrow> Inl e
            | Inr valid_species \<Rightarrow>
                Inr (\<lparr>columns = cols,
                      rows = filter (\<lambda>r. cell_of cols r ''species'' \<in> set valid_species)
                               (rows df)\<rparr>,
                     length valid_species)))"

subsection \<open>validate_georeferencing\<close>

text \<open>\<open>geocode_point\<close>: one reverse lookup with the timeout 10. A location object is always
  true; no result is None. Only the time-out is caught; any other error propagates.\<close>

definition geocode_point :: "services \<Rightarrow> cell \<Rightarrow> cell \<Rightarrow> error + bool" where
  "geocode_point env lat lon =
     (case geolocator_reverse env (lat, lon) 10 of
        Inr (Some location) \<Rightarrow> Inr True
      | Inr None \<Rightarrow> Inr False
      | Inl GeocoderTimedOut \<Rightarrow> Inr False
      | Inl e \<Rightarrow> Inl e)"

text \<open>The loop over \<open>df.iterrows()\<close>, with \<open>valid_geolocation\<close> as its state.\<close>

fun georeferencing_loop ::
  "services \<Rightarrow> string list \<Rightarrow> row list \<Rightarrow> row list \<Rightarrow> error + row list" where
  "georeferencing_loop env cols valid_geolocation [] = Inr valid_geolocation"
| "georeferencing_loop env cols valid_geolocation (r # rs) =
     (if ''decimalLatitude'' \<notin> set cols then Inl (KeyError [''decimalLatitude''])
      else if ''decimalLongitude'' \<notin> set cols then Inl (KeyError [''decimalLongitude''])
      else
        (case geocode_point env (cell_of cols r ''decimalLatitude'')
                (cell_of cols r ''decimalLongitude'') of
           Inl e \<Rightarrow> Inl e
         | Inr ok \<Rightarrow>
             georeferencing_loop env cols
               (if ok then valid_geolocation @ [r] else valid_geolocation) rs))"

text \<open>\<open>pd.DataFrame(valid_geolocation)\<close>: the rows kept, under the labels they carry; with no
  row there is no label either.\<close>

definition DataFrame_of_rows :: "string list \<Rightarrow> row list \<Rightarrow> dataframe" where
  "DataFrame_of_rows cols rs =
     (if rs = [] then \<lparr>columns = [], rows = []\<rparr> else \<lparr>columns = cols, rows = rs\<rparr>)"

definition validate_georeferencing :: "services \<Rightarrow> dataframe \<Rightarrow> error + dataframe" where
  "validate_georeferencing env df =
     (case georeferencing_loop env (columns df) [] (rows df) of
        Inl e \<Rightarrow> Inl e
      | Inr valid_geolocation \<Rightarrow> Inr (DataFrame_of_rows (columns df) valid_geolocation))"

subsection \<open>enrich_data\<close>

text \<open>\<open>df['dataSource'] = 'GBIF'\<close>: a new last column, or the column overwritten.\<close>

definition enrich_data :: "dataframe \<Rightarrow> dataframe" where
  "enrich_data df =
     (if ''dataSource'' \<in> set (columns df)
      then \<lparr>columns = columns df,
            rows = map (set_cell (columns df) ''dataSource'' (\<lambda>_. Str ''GBIF'')) (rows df)\<rparr>
      else \<lparr>columns = columns df @ [''dataSource''],
            rows = map (\<lambda>r. r @ [Str ''GBIF'']) (rows df)\<rparr>)"

subsection \<open>curate_data\<close>

text \<open>The decimal rendering of a count in an f-string.\<close>

function show_nat :: "nat \<Rightarrow> string" where
  "show_nat n =
     (if n < 10 then [char_of (48 + n)]
      else show_nat (n div 10) @ [char_of (48 + n mod 10)])"
  by pat_completeness auto
termination
  by (relation "measure id") auto

datatype content = Csv dataframe | Text string

type_synonym written_file = "string \<times> content"

definition report_text ::
  "string \<Rightarrow> string \<Rightarrow> nat \<Rightarrow> nat \<Rightarrow> nat \<Rightarrow> nat \<Rightarrow> nat \<Rightarrow> nat \<Rightarrow> string" where
  "report_text species_name url initial_count coord_valid_count date_valid_count
       georeferenced_count valid_species_count curated_count =
     ''Species: '' @ species_name @ [CHR 0x0A] @
     ''GBIF Data URL: '' @ url @ [CHR 0x0A] @
     ''Total records fetched: '' @ show_nat initial_count @ [CHR 0x0A] @
     ''Records after coordinate validation: '' @ show_nat coord_valid_count @ [CHR 0x0A] @
     ''Records after date validation: '' @ show_nat date_valid_count @ [CHR 0x0A] @
     ''Records after georeferencing validation: '' @ show_nat georeferenced_count @ [CHR 0x0A] @
     ''Valid species names found: '' @ show_nat valid_species_count @ [CHR 0x0A] @
     ''Total curated records: '' @ show_nat curated_count @ [CHR 0x0A]"

definition file_stem :: "string \<Rightarrow> string" where
  "file_stem species_name = replace_char (CHR '' '') ''_'' species_name"

text \<open>
  The whole run: the files written, in order, and the error that ended the run or the curated
  DataFrame. \<open>None\<close> is a fetch that never ends. An error of a stage is not caught, so the
  files of the later steps are not written.
\<close>

definition curate_data ::
  "services \<Rightarrow> string \<Rightarrow> int \<Rightarrow> int \<Rightarrow> int \<Rightarrow> (written_file list \<times> (error + dataframe)) option" where
  "curate_data env species_name min_date max_date limit_per_request =
     (case fetch_all_gbif_data env species_name limit_per_request of
        None \<Rightarrow> None
      | Some (reqs, Inl e) \<Rightarrow> Some ([], Inl e)
      | Some (reqs, Inr (raw_data, url)) \<Rightarrow>
          Some
           (let raw_file = (file_stem species_name @ ''_gbif_raw_data.csv'', Csv raw_data)
            in case initial_cleaning raw_data of
                 Inl e \<Rightarrow> ([raw_file], Inl e)
               | Inr cleaned_data \<Rightarrow>
             (case validate_data env cleaned_data min_date max_date of
                 Inl e \<Rightarrow> ([raw_file], Inl e)
               | Inr (validated_data, initial_count, coord_valid_count, date_valid_count) \<Rightarrow>
             (case validate_georeferencing env validated_data of
                 Inl e \<Rightarrow> ([raw_file], Inl e)
               | Inr validated_georeferencing_data \<Rightarrow>
             (case taxonomic_validation env validated_georeferencing_data of
                 Inl e \<Rightarrow> ([raw_file], Inl e)
               | Inr (taxonomically_validated_data, valid_species_count) \<Rightarrow>
                   let enriched_data = enrich_data taxonomically_validated_data
                   in ([raw_file,
                        (file_stem species_name @ ''_gbif_curated_data.csv'', Csv enriched_data),
                        (file_stem species_name @ ''_gbif_report.txt'',
                         Text (report_text species_name url initial_count coord_valid_count
                                 date_valid_count
                                 (length (rows validated_georeferencing_data))
                                 valid_species_count (length (rows enriched_data))))],
                       Inr enriched_data))))))"

section \<open>vsSHP\_BUFFER.py\<close>

text \<open>
  The boundary set: its geometries and its reference system. What a geometry is, and when it
  contains a point, belongs to the geometry library: \<open>contains\<close> is a parameter. A point is
  the pair (x, y) of the longitude and latitude cells.
\<close>

record 'g shapefile =
  geometries :: "'g list"
  shp_crs :: "string option"

record geodataframe =
  frame :: dataframe
  geometry :: "(cell \<times> cell) list"
  crs :: "string option"

text \<open>\<open>gdf['within_shapefile'] = values\<close>: one value per row, as a new last column or over
  the column of that label.\<close>

definition assign_column :: "string \<Rightarrow> cell list \<Rightarrow> dataframe \<Rightarrow> dataframe" where
  "assign_column name vals df =
     (if name \<in> set (columns df)
      then \<lparr>columns = columns df,
            rows = map (\<lambda>(r, v). set_cell (columns df) name (\<lambda>_. v) r) (zip (rows df) vals)\<rparr>
      else \<lparr>columns = columns df @ [name],
            rows = map (\<lambda>(r, v). r @ [v]) (zip (rows df) vals)\<rparr>)"

definition validate_points_within_shapefile ::
  "('g \<Rightarrow> cell \<times> cell \<Rightarrow> bool) \<Rightarrow> dataframe \<Rightarrow> 'g shapefile \<Rightarrow> error + geodataframe" where
  "validate_points_within_shapefile contains df shp =
     (let cols = columns df
      in if ''decimalLongitude'' \<notin> set cols then Inl (KeyError [''decimalLongitude''])
         else if ''decimalLatitude'' \<notin> set cols then Inl (KeyError [''decimalLatitude''])
         else
           let points = map (\<lambda>r. (cell_of cols r ''decimalLongitude'',
                                   cell_of cols r ''decimalLatitude'')) (rows df);
               gdf_crs = (if None \<noteq> shp_crs shp then shp_crs shp else None);
               within_flags = map (\<lambda>p. Bool (list_ex (\<lambda>g. contains g p) (geometries shp))) points
           in Inr \<lparr>frame = assign_column ''within_shapefile'' within_flags df,
                   geometry = points, crs = gdf_crs\<rparr>)"

section \<open>Notions of the specification\<close>

text \<open>The number a cell holds, if it holds one (a Python bool is a number).\<close>

fun number_of :: "cell \<Rightarrow> rat option" where
  "number_of (Num x) = Some x"
| "number_of (Bool b) = Some (of_bool b)"
| "number_of _ = None"

text \<open>The digits of the decimal fraction of a rendering: the digits that follow the first
  decimal separator, none when there is no separator.\<close>

definition spec_fraction_digits :: "string \<Rightarrow> nat" where
  "spec_fraction_digits s =
     length (takeWhile (\<lambda>c. c \<in> set ''0123456789'')
               (drop 1 (dropWhile (\<lambda>c. c \<noteq> CHR ''.'') s)))"

text \<open>A name the backbone matched with a match type other than \<open>'NONE'\<close> and a usage key
  that is true.\<close>

definition name_accepted :: "services \<Rightarrow> cell \<Rightarrow> bool" where
  "name_accepted env name =
     (case name_backbone env name of
        Inl e \<Rightarrow> False
      | Inr match \<Rightarrow>
          (case (map_of match ''matchType'', map_of match ''usageKey'') of
             (Some match_type, Some usage_key) \<Rightarrow> match_type \<noteq> Str ''NONE'' \<and> truthy usage_key
           | _ \<Rightarrow> False))"

text \<open>A name whose match type is other than \<open>'NONE'\<close>, whatever the usage key.\<close>

definition name_matched :: "services \<Rightarrow> cell \<Rightarrow> bool" where
  "name_matched env name =
     (case name_backbone env name of
        Inl e \<Rightarrow> False
      | Inr match \<Rightarrow>
          (case map_of match ''matchType'' of
             Some match_type \<Rightarrow> match_type \<noteq> Str ''NONE''
           | None \<Rightarrow> False))"

text \<open>A row whose reverse lookup gave a location.\<close>

definition located :: "services \<Rightarrow> string list \<Rightarrow> row \<Rightarrow> bool" where
  "located env cols r =
     (case geolocator_reverse env
             (cell_of cols r ''decimalLatitude'', cell_of cols r ''decimalLongitude'') 10 of
        Inr (Some location) \<Rightarrow> True
      | _ \<Rightarrow> False)"

text \<open>A row whose reverse lookup ended in nothing worse than a time-out.\<close>

definition lookup_answered :: "services \<Rightarrow> string list \<Rightarrow> row \<Rightarrow> bool" where
  "lookup_answered env cols r =
     (case geolocator_reverse env
             (cell_of cols r ''decimalLatitude'', cell_of cols r ''decimalLongitude'') 10 of
        Inr location \<Rightarrow> True
      | Inl GeocoderTimedOut \<Rightarrow> True
      | Inl e \<Rightarrow> False)"

text \<open>What validate_data does to a row it keeps: both coordinates rounded, the event date
  replaced by its parsed value.\<close>

definition validated_row :: "services \<Rightarrow> string list \<Rightarrow> int \<Rightarrow> int \<Rightarrow> row \<Rightarrow> row" where
  "validated_row env cols min_date max_date =
     set_cell cols ''eventDate'' (is_valid_date env min_date max_date) \<circ>
     set_cell cols ''decimalLongitude'' round8 \<circ>
     set_cell cols ''decimalLatitude'' round8"

text \<open>A DataFrame as pandas builds it from records: distinct labels, one cell per label in
  every row.\<close>

definition well_formed :: "dataframe \<Rightarrow> bool" where
  "well_formed df =
     (distinct (columns df) \<and> list_all (\<lambda>r. length r = length (columns df)) (rows df))"

text \<open>A cell that holds a number between the bounds, both included.\<close>

definition in_range :: "rat \<Rightarrow> rat \<Rightarrow> cell \<Rightarrow> bool" where
  "in_range lo hi c = (case number_of c of Some x \<Rightarrow> lo \<le> x \<and> x \<le> hi | None \<Rightarrow> False)"

text \<open>The coordinate and precision conditions on a row.\<close>

definition coordinates_valid :: "services \<Rightarrow> string list \<Rightarrow> row \<Rightarrow> bool" where
  "coordinates_valid env cols r =
     (in_range (- 90) 90 (cell_of cols r ''decimalLatitude'') \<and>
      in_range (- 180) 180 (cell_of cols r ''decimalLongitude'') \<and>
      valid_decimals env (cell_of cols r ''decimalLatitude'') \<and>
      valid_decimals env (cell_of cols r ''decimalLongitude''))"

text \<open>The event date of a row parses to a date between the bounds, both included.\<close>

definition date_in_range :: "services \<Rightarrow> string list \<Rightarrow> int \<Rightarrow> int \<Rightarrow> row \<Rightarrow> bool" where
  "date_in_range env cols min_date max_date r =
     (case to_datetime env (cell_of cols r ''eventDate'') of
        Naive t \<Rightarrow> min_date \<le> t \<and> t \<le> max_date
      | _ \<Rightarrow> False)"

section \<open>Example data\<close>

definition example_record :: "rat \<Rightarrow> string \<Rightarrow> rat \<Rightarrow> rat \<Rightarrow> string \<Rightarrow> json_record" where
  "example_record key species lat lon date =
     [(''key'', Num key), (''species'', Str species), (''decimalLatitude'', Num lat),
      (''decimalLongitude'', Num lon), (''country'', Str ''Brazil''),
      (''eventDate'', Str date), (''basisOfRecord'', Str ''HUMAN_OBSERVATION''),
      (''institutionCode'', Str ''INPA''), (''identificationID'', Str ''id''),
      (''identifiedBy'', Str ''A. Silva'')]"

definition example_records :: "json_record list" where
  "example_records =
     [example_record 1 ''Panthera onca'' (- 3.4653) (- 62.2159) ''2020-05-03'',
      example_record 2 ''Panthera onca'' (- 3.4653) (- 62.2159) ''2020-05-03'',
      example_record 3 ''Panthera onca'' 12.3 (- 62.2159) ''2020-05-03'',
      example_record 4 ''Panthera onca'' (- 3.4653) (- 62.2159) ''1850-01-01'',
      example_record 5 ''Panthera onca'' 0.001 (- 150.5001) ''2021-07-01'',
      example_record 6 ''Felis nonexistens'' (- 3.4653) (- 62.2159) ''2019-01-15'',
      example_record 7 ''Panthera onca'' 0.002 (- 150.5001) ''2021-07-01'']"

definition example_row :: "string \<Rightarrow> cell \<Rightarrow> cell \<Rightarrow> cell \<Rightarrow> row" where
  "example_row species lat lon date =
     [Str species, lat, lon, Str ''Brazil'', date, Str ''HUMAN_OBSERVATION'',
      Str ''INPA'', Str ''id'', Str ''A. Silva'']"

definition example_str :: "cell \<Rightarrow> string" where
  "example_str c =
     (if c = Num (- 3.4653) then ''-3.4653''
      else if c = Num (- 62.2159) then ''-62.2159''
      else if c = Num 12.3 then ''12.3''
      else if c = Num 0.001 then ''0.001''
      else if c = Num 0.002 then ''0.002''
      else if c = Num (- 150.5001) then ''-150.5001''
      else if c = Num (3 / 20000000000) then ''1.5e-10''
      else ''nan'')"

text \<open>Dates are written as the integer yyyymmdd in the examples.\<close>

definition example_to_datetime :: "cell \<Rightarrow> parsed" where
  "example_to_datetime c =
     (if c = Str ''2020-05-03'' then Naive 20200503
      else if c = Str ''1850-01-01'' then Naive 18500101
      else if c = Str ''2021-07-01'' then Naive 20210701
      else if c = Str ''2019-01-15'' then Naive 20190115
      else NaT)"

definition example_search :: "string \<Rightarrow> int \<Rightarrow> int \<Rightarrow> error + json_record list" where
  "example_search name limit offset = (if offset = 0 then Inr example_records else Inr [])"

definition example_backbone :: "cell \<Rightarrow> error + json_record" where
  "example_backbone name =
     (if name = Str ''Panthera onca''
      then Inr [(''usageKey'', Num 5219426), (''matchType'', Str ''EXACT'')]
      else if name = Str ''incertae sedis''
      then Inr [(''usageKey'', Num 0), (''matchType'', Str ''EXACT'')]
      else Inr [(''matchType'', Str ''NONE'')])"

definition example_reverse :: "cell \<times> cell \<Rightarrow> nat \<Rightarrow> error + string option" where
  "example_reverse point timeout =
     (if fst point = Num 0.001 then Inl GeocoderTimedOut
      else if fst point = Num 0.002 then Inr None
      else Inr (Some ''Amazonas, Brazil''))"

definition example_services :: services where
  "example_services =
     \<lparr>py_str = example_str, to_datetime = example_to_datetime,
      occurrences_search = example_search, name_backbone = example_backbone,
      geolocator_reverse = example_reverse\<rparr>"

text \<open>The example after each stage of the pipeline, for the dates 2000-01-01 to 2023-12-31.\<close>

definition example_cleaned :: dataframe where
  "example_cleaned =
     \<lparr>columns = required_columns,
      rows =
        [example_row ''Panthera onca'' (Num (- 3.4653)) (Num (- 62.2159)) (Str ''2020-05-03''),
         example_row ''Panthera onca'' (Num 12.3) (Num (- 62.2159)) (Str ''2020-05-03''),
         example_row ''Panthera onca'' (Num (- 3.4653)) (Num (- 62.2159)) (Str ''1850-01-01''),
         example_row ''Panthera onca'' (Num 0.001) (Num (- 150.5001)) (Str ''2021-07-01''),
         example_row ''Felis nonexistens'' (Num (- 3.4653)) (Num (- 62.2159))
           (Str ''2019-01-15''),
         example_row ''Panthera onca'' (Num 0.002) (Num (- 150.5001)) (Str ''2021-07-01'')]\<rparr>"

definition example_validated :: dataframe where
  "example_validated =
     \<lparr>columns = required_columns,
      rows =
        [example_row ''Panthera onca'' (Num (- 3.4653)) (Num (- 62.2159)) (Timestamp 20200503),
         example_row ''Panthera onca'' (Num 0.001) (Num (- 150.5001)) (Timestamp 20210701),
         example_row ''Felis nonexistens'' (Num (- 3.4653)) (Num (- 62.2159))
           (Timestamp 20190115),
         example_row ''Panthera onca'' (Num 0.002) (Num (- 150.5001)) (Timestamp 20210701)]\<rparr>"

definition example_georeferenced :: dataframe where
  "example_georeferenced =
     \<lparr>columns = required_columns,
      rows =
        [example_row ''Panthera onca'' (Num (- 3.4653)) (Num (- 62.2159)) (Timestamp 20200503),
         example_row ''Felis nonexistens'' (Num (- 3.4653)) (Num (- 62.2159))
           (Timestamp 20190115)]\<rparr>"

definition example_taxonomic :: dataframe where
  "example_taxonomic =
     \<lparr>columns = required_columns,
      rows =
        [example_row ''Panthera onca'' (Num (- 3.4653)) (Num (- 62.2159))
           (Timestamp 20200503)]\<rparr>"

text \<open>The example services with an occurrence search that finds nothing, and with a reverse
  geocoder that always times out.\<close>

definition empty_search :: "string \<Rightarrow> int \<Rightarrow> int \<Rightarrow> error + json_record list" where
  "empty_search name limit offset = Inr []"

definition empty_services :: services where
  "empty_services = example_services\<lparr>occurrences_search := empty_search\<rparr>"

definition timeout_reverse :: "cell \<times> cell \<Rightarrow> nat \<Rightarrow> error + string option" where
  "timeout_reverse point timeout = Inl GeocoderTimedOut"

definition timeout_services :: services where
  "timeout_services = example_services\<lparr>geolocator_reverse := timeout_reverse\<rparr>"

text \<open>A frame with a name that the example backbone matches with the usage key 0.\<close>

definition zero_key_frame :: dataframe where
  "zero_key_frame =
     \<lparr>columns = required_columns,
      rows =
        [example_row ''incertae sedis'' (Num (- 3.4653)) (Num (- 62.2159)) (Timestamp 20200503),
         example_row ''Panthera onca'' (Num (- 3.4653)) (Num (- 62.2159))
           (Timestamp 20200503)]\<rparr>"

text \<open>Three pages of 5000, 5000 and 1200 records, then an empty one.\<close>

definition paged_search :: "string \<Rightarrow> int \<Rightarrow> int \<Rightarrow> error + json_record list" where
  "paged_search name limit offset =
     (if offset = 0 \<or> offset = 5000
      then Inr (replicate 5000 (example_record 1 name 1.2345 1.2345 ''2020-05-03''))
      else if offset = 10000
      then Inr (replicate 1200 (example_record 1 name 1.2345 1.2345 ''2020-05-03''))
      else Inr [])"

text \<open>Axis-parallel boxes (xmin, ymin, xmax, ymax) as example geometries; a box contains the
  points of its interior.\<close>

fun box_contains :: "rat \<times> rat \<times> rat \<times> rat \<Rightarrow> cell \<times> cell \<Rightarrow> bool" where
  "box_contains (x0, y0, x1, y1) (Num x, Num y) = (x0 < x \<and> x < x1 \<and> y0 < y \<and> y < y1)"
| "box_contains b p = False"

text \<open>Two overlapping boxes, and three points: in both boxes, in the second only, in none.\<close>

definition example_boundary :: "(rat \<times> rat \<times> rat \<times> rat) shapefile" where
  "example_boundary =
     \<lparr>geometries = [(0, 0, 3, 3), (2, 2, 6, 6)], shp_crs = Some ''EPSG:4326''\<rparr>"

definition example_points :: dataframe where
  "example_points =
     \<lparr>columns = [''species'', ''decimalLatitude'', ''decimalLongitude''],
      rows = [[Str ''Panthera onca'', Num 2.5, Num 2.5],
              [Str ''Panthera onca'', Num 5, Num 4],
              [Str ''Panthera onca'', Num 50, Num 40]]\<rparr>"

definition example_flagged :: geodataframe where
  "example_flagged =
     \<lparr>frame =
        \<lparr>columns = [''species'', ''decimalLatitude'', ''decimalLongitude'', ''within_shapefile''],
         rows = [[Str ''Panthera onca'', Num 2.5, Num 2.5, Bool True],
                 [Str ''Panthera onca'', Num 5, Num 4, Bool True],
                 [Str ''Panthera onca'', Num 50, Num 40, Bool False]]\<rparr>,
      geometry = [(Num 2.5, Num 2.5), (Num 4, Num 5), (Num 40, Num 50)],
      crs = Some ''EPSG:4326''\<rparr>"

section \<open>Properties\<close>

subsection \<open>Distinct values in first-seen order\<close>

lemma set_unique_aux: "set (unique_aux seen xs) = set xs - set seen"
  by (induction xs arbitrary: seen) auto

lemma distinct_unique_aux: "distinct (unique_aux seen xs)"
  by (induction xs arbitrary: seen) (auto simp: set_unique_aux)

lemma unique_aux_distinct_id:
  "distinct xs \<Longrightarrow> set xs \<inter> set seen = {} \<Longrightarrow> unique_aux seen xs = xs"
  by (induction xs arbitrary: seen) auto

lemma subseq_unique_aux: "subseq (unique_aux seen xs) xs"
  by (induction xs arbitrary: seen) auto

lemma set_unique: "set (unique xs) = set xs"
  by (simp add: unique_def set_unique_aux)

lemma distinct_unique: "distinct (unique xs)"
  by (simp add: unique_def distinct_unique_aux)

lemma unique_distinct_id: "distinct xs \<Longrightarrow> unique xs = xs"
  by (simp add: unique_def unique_aux_distinct_id)

lemma subseq_unique: "subseq (unique xs) xs"
  by (simp add: unique_def subseq_unique_aux)

subsection \<open>Cells of a row\<close>

lemma cell_of_project:
  assumes "distinct cols" and "length r = length cols"
  shows "map (cell_of cols r) cols = r"
proof (rule nth_equalityI)
  show "length (map (cell_of cols r) cols) = length r"
    using assms by simp
next
  fix i
  assume "i < length (map (cell_of cols r) cols)"
  then have i: "i < length cols"
    by simp
  have "map_of (zip cols r) (cols ! i) = Some (r ! i)"
    using assms i by (simp add: map_of_zip_nth)
  then show "map (cell_of cols r) cols ! i = r ! i"
    using i by (simp add: cell_of_def)
qed

subsection \<open>initial_cleaning\<close>

lemma distinct_required_columns: "distinct required_columns"
  by (simp add: required_columns_def)

lemma initial_cleaning_Inr:
  "initial_cleaning df = Inr d \<Longrightarrow>
     set required_columns \<subseteq> set (columns df) \<and>
     d = \<lparr>columns = required_columns,
          rows = unique (map (\<lambda>r. map (cell_of (columns df) r) required_columns) (rows df))\<rparr>"
  by (auto simp: initial_cleaning_def Let_def filter_empty_conv split: if_splits)

lemma initial_cleaning_total:
  "set required_columns \<subseteq> set (columns df) \<Longrightarrow>
     initial_cleaning df =
       Inr \<lparr>columns = required_columns,
            rows = unique (map (\<lambda>r. map (cell_of (columns df) r) required_columns) (rows df))\<rparr>"
  by (auto simp: initial_cleaning_def Let_def filter_empty_conv)

lemma initial_cleaning_clean:
  assumes "columns df = required_columns" and "distinct (rows df)"
    and "\<forall>r \<in> set (rows df). length r = length required_columns"
  shows "initial_cleaning df = Inr df"
proof -
  have "map (\<lambda>r. map (cell_of required_columns r) required_columns) (rows df) = rows df"
    using assms(3) by (simp add: map_idI cell_of_project distinct_required_columns)
  then have "unique (map (\<lambda>r. map (cell_of (columns df) r) required_columns) (rows df)) = rows df"
    using assms(1,2) by (simp add: unique_distinct_id)
  moreover have "\<lparr>columns = required_columns, rows = rows df\<rparr> = df"
    using assms(1) by simp
  ultimately show ?thesis
    using assms(1) by (simp add: initial_cleaning_total)
qed

text \<open>
  C8. Cleaning twice is cleaning once: a dataset that has the nine columns is cleaned without
  error, and cleaning the result again returns that same result; and a dataset that is already
  projected to the nine columns and free of duplicate rows is returned as it is, rows in the
  same order.
\<close>

theorem initial_cleaning_idempotent:
  "(set required_columns \<subseteq> set (columns df) \<longrightarrow>
      (\<exists>d. initial_cleaning df = Inr d \<and> initial_cleaning d = Inr d)) \<and>
   (columns df = required_columns \<and> distinct (rows df) \<and>
      (\<forall>r \<in> set (rows df). length r = length required_columns) \<longrightarrow>
      initial_cleaning df = Inr df)"
proof (intro conjI impI)
  assume cols: "set required_columns \<subseteq> set (columns df)"
  define d where "d = \<lparr>columns = required_columns,
    rows = unique (map (\<lambda>r. map (cell_of (columns df) r) required_columns) (rows df))\<rparr>"
  have first: "initial_cleaning df = Inr d"
    using cols by (simp add: initial_cleaning_total d_def)
  have "\<forall>r \<in> set (rows d). length r = length required_columns"
    by (auto simp: d_def set_unique)
  moreover have "distinct (rows d)" and "columns d = required_columns"
    by (simp_all add: d_def distinct_unique)
  ultimately have "initial_cleaning d = Inr d"
    by (simp add: initial_cleaning_clean)
  with first show "\<exists>d. initial_cleaning df = Inr d \<and> initial_cleaning d = Inr d"
    by blast
next
  assume "columns df = required_columns \<and> distinct (rows df) \<and>
      (\<forall>r \<in> set (rows df). length r = length required_columns)"
  then show "initial_cleaning df = Inr df"
    by (simp add: initial_cleaning_clean)
qed

lemma example_initial_cleaning:
  "initial_cleaning (DataFrame example_records) = Inr example_cleaned"
  by code_simp

lemma example_raw_columns:
  "set required_columns \<subseteq> set (columns (DataFrame example_records))"
  by code_simp

lemma example_cleaned_clean:
  "columns example_cleaned = required_columns \<and> distinct (rows example_cleaned) \<and>
     (\<forall>r \<in> set (rows example_cleaned). length r = length required_columns)"
  by code_simp

theorem initial_cleaning_idempotent_witness:
  "set required_columns \<subseteq> set (columns (DataFrame example_records)) \<and>
   initial_cleaning (DataFrame example_records) = Inr example_cleaned \<and>
   columns example_cleaned = required_columns \<and> distinct (rows example_cleaned) \<and>
   list_all (\<lambda>r. length r = length required_columns) (rows example_cleaned) \<and>
   initial_cleaning example_cleaned = Inr example_cleaned"
  using initial_cleaning_idempotent [of "DataFrame example_records"]
    initial_cleaning_idempotent [of example_cleaned]
    example_initial_cleaning example_raw_columns example_cleaned_clean
  by (simp add: list_all_iff)

subsection \<open>valid_decimals\<close>

lemma split_on_no_separator: "sep \<notin> set s \<Longrightarrow> split_on sep s = [s]"
  by (induction s) auto

lemma split_on_first_field:
  "sep \<notin> set a \<Longrightarrow> split_on sep (a @ sep # b) = a # split_on sep b"
  by (induction a) auto

lemma valid_decimals_no_separator:
  "CHR ''.'' \<notin> set (py_str env v) \<Longrightarrow> \<not> valid_decimals env v"
  by (simp add: valid_decimals_def split_on_no_separator)

lemma valid_decimals_plain:
  assumes "py_str env v = whole @ CHR ''.'' # fraction"
    and "CHR ''.'' \<notin> set whole" and "CHR ''.'' \<notin> set fraction"
  shows "valid_decimals env v = (3 \<le> length fraction \<and> length fraction \<le> 8)"
  using assms
  by (simp add: valid_decimals_def split_on_first_field split_on_no_separator)

lemma valid_decimals_examples:
  "py_str env v = ''12.345'' \<Longrightarrow> valid_decimals env v"
  "py_str env v = ''12.12345678'' \<Longrightarrow> valid_decimals env v"
  "py_str env v = ''12.3'' \<Longrightarrow> \<not> valid_decimals env v"
  "py_str env v = ''12'' \<Longrightarrow> \<not> valid_decimals env v"
  "py_str env v = ''12.0'' \<Longrightarrow> \<not> valid_decimals env v"
  "py_str env v = ''12.123456789'' \<Longrightarrow> \<not> valid_decimals env v"
  "py_str env v = ''nan'' \<Longrightarrow> \<not> valid_decimals env v"
  by (simp_all add: valid_decimals_def)

text \<open>
  C2. The coordinate 1.5e-10 is rendered \<open>1.5e-10\<close>: one digit follows the decimal separator,
  yet the check passes, because it counts the five characters \<open>5e-10\<close>.
\<close>

theorem valid_decimals_exponent_rendering:
  "py_str example_services (Num (3 / 20000000000)) = ''1.5e-10'' \<and>
   spec_fraction_digits ''1.5e-10'' = 1 \<and>
   valid_decimals example_services (Num (3 / 20000000000))"
  by code_simp

subsection \<open>Updating a cell\<close>

lemma set_cell_Nil [simp]: "set_cell [] n f r = []" "set_cell cols n f [] = []"
  by (simp_all add: set_cell_def)

lemma set_cell_Cons:
  "set_cell (c # cs) n f (v # vs) = (if c = n then f v else v) # set_cell cs n f vs"
  by (simp add: set_cell_def)

lemma map_of_zip_set_cell:
  "map_of (zip cols (set_cell cols n f r)) m =
     (if m = n then map_option f (map_of (zip cols r) n) else map_of (zip cols r) m)"
proof (induction cols arbitrary: r)
  case Nil
  show ?case by simp
next
  case (Cons c cs)
  note IH = Cons.IH
  show ?case
  proof (cases r)
    case Nil
    then show ?thesis by simp
  next
    case (Cons v vs)
    show ?thesis
      unfolding Cons set_cell_Cons using IH [of vs] by auto
  qed
qed

lemma length_set_cell: "length (set_cell cols n f r) = min (length cols) (length r)"
  unfolding set_cell_def by (simp only: length_map length_zip)

lemma cell_of_set_cell_other:
  "m \<noteq> n \<Longrightarrow> cell_of cols (set_cell cols n f r) m = cell_of cols r m"
  by (simp add: cell_of_def map_of_zip_set_cell)

lemma cell_of_set_cell_same:
  assumes "length r = length cols" and "n \<in> set cols"
  shows "cell_of cols (set_cell cols n f r) n = f (cell_of cols r n)"
proof -
  have "length cols = length r"
    using assms(1) by simp
  from map_of_zip_is_Some [OF this, of n] assms(2)
  obtain v where "map_of (zip cols r) n = Some v"
    by blast
  then show ?thesis
    by (simp add: cell_of_def map_of_zip_set_cell)
qed

subsection \<open>Rounding and ranges\<close>

lemma floor_le_rint: "\<lfloor>y\<rfloor> \<le> rint y"
  by (simp add: rint_def Let_def)

lemma rint_le_ceiling: "rint y \<le> \<lceil>y\<rceil>"
proof (cases "y - of_int \<lfloor>y\<rfloor> < 1 / 2")
  case True
  then show ?thesis by (simp add: rint_def Let_def floor_le_ceiling)
next
  case False
  then have "of_int \<lfloor>y\<rfloor> < y" by simp
  then have "\<lfloor>y\<rfloor> < \<lceil>y\<rceil>" by (simp add: less_ceiling_iff)
  then show ?thesis by (simp add: rint_def Let_def)
qed

lemma round8_bounds:
  assumes "of_int a \<le> x" and "x \<le> of_int b"
  shows "of_int a \<le> (of_int (rint (x * 10 ^ 8)) / 10 ^ 8 :: rat) \<and>
         (of_int (rint (x * 10 ^ 8)) / 10 ^ 8 :: rat) \<le> of_int b"
proof -
  have "(of_int (a * 10 ^ 8) :: rat) \<le> x * 10 ^ 8"
    using assms(1) by simp
  then have "a * 10 ^ 8 \<le> \<lfloor>x * 10 ^ 8\<rfloor>"
    by (simp only: le_floor_iff)
  then have lo: "a * 10 ^ 8 \<le> rint (x * 10 ^ 8)"
    using floor_le_rint [of "x * 10 ^ 8"] by linarith
  have "x * 10 ^ 8 \<le> (of_int (b * 10 ^ 8) :: rat)"
    using assms(2) by simp
  then have "\<lceil>x * 10 ^ 8\<rceil> \<le> b * 10 ^ 8"
    by (simp only: ceiling_le_iff)
  then have hi: "rint (x * 10 ^ 8) \<le> b * 10 ^ 8"
    using rint_le_ceiling [of "x * 10 ^ 8"] by linarith
  have "(of_int (a * 10 ^ 8) :: rat) \<le> of_int (rint (x * 10 ^ 8))"
    using lo by (simp only: of_int_le_iff)
  moreover have "(of_int (rint (x * 10 ^ 8)) :: rat) \<le> of_int (b * 10 ^ 8)"
    using hi by (simp only: of_int_le_iff)
  ultimately show ?thesis
    by (simp add: field_simps)
qed

lemma in_range_between: "in_range lo hi c = (between lo hi c = Inr True)"
  by (cases c) (simp_all add: in_range_def)

lemma in_range_round8:
  assumes "in_range (of_int a) (of_int b) c"
  shows "in_range (of_int a) (of_int b) (round8 c)"
proof (cases c)
  case (Num x)
  then have "of_int a \<le> x" and "x \<le> of_int b"
    using assms by (simp_all add: in_range_def)
  from round8_bounds [OF this] show ?thesis
    unfolding Num by (simp only: round8.simps number_of.simps in_range_def option.case)
qed (use assms in \<open>simp_all add: in_range_def\<close>)

lemma in_range_round8_lat: "in_range (- 90) 90 c \<Longrightarrow> in_range (- 90) 90 (round8 c)"
  using in_range_round8 [of "- 90" 90 c] by simp

lemma in_range_round8_lon: "in_range (- 180) 180 c \<Longrightarrow> in_range (- 180) 180 (round8 c)"
  using in_range_round8 [of "- 180" 180 c] by simp

lemma coord_mask_coordinates_valid: "coord_mask env cols = coordinates_valid env cols"
  by (rule ext) (simp add: coord_mask_def coordinates_valid_def in_range_between)

subsection \<open>validate_data\<close>

lemma validate_data_Inr:
  assumes "validate_data env df min_date max_date = Inr res"
  shows "res =
     (\<lparr>columns = columns df,
       rows = filter (\<lambda>r. cell_of (columns df) r ''eventDate'' \<noteq> Null)
                (map (validated_row env (columns df) min_date max_date)
                   (filter (coord_mask env (columns df)) (rows df)))\<rparr>,
      length (rows df),
      length (filter (coord_mask env (columns df)) (rows df)),
      length (filter (\<lambda>r. cell_of (columns df) r ''eventDate'' \<noteq> Null)
                (map (validated_row env (columns df) min_date max_date)
                   (filter (coord_mask env (columns df)) (rows df)))))
     \<and> ''decimalLatitude'' \<in> set (columns df) \<and> ''decimalLongitude'' \<in> set (columns df)
     \<and> ''eventDate'' \<in> set (columns df)"
  using assms
  by (auto simp: validate_data_def Let_def validated_row_def comp_assoc split: if_splits)

lemma validate_data_total:
  assumes "''decimalLatitude'' \<in> set (columns df)" and "''decimalLongitude'' \<in> set (columns df)"
    and "''eventDate'' \<in> set (columns df)"
    and "\<forall>r \<in> set (rows df).
           between (- 90) 90 (cell_of (columns df) r ''decimalLatitude'') \<noteq> Inl TypeError \<and>
           between (- 180) 180 (cell_of (columns df) r ''decimalLongitude'') \<noteq> Inl TypeError"
  shows "\<exists>res. validate_data env df min_date max_date = Inr res"
  using assms by (simp add: validate_data_def Let_def list_ex_iff)

lemma validated_row_cells:
  assumes "length r = length cols"
    and "''decimalLatitude'' \<in> set cols" and "''decimalLongitude'' \<in> set cols"
    and "''eventDate'' \<in> set cols"
  shows "cell_of cols (validated_row env cols lo hi r) ''decimalLatitude''
           = round8 (cell_of cols r ''decimalLatitude'')"
    and "cell_of cols (validated_row env cols lo hi r) ''decimalLongitude''
           = round8 (cell_of cols r ''decimalLongitude'')"
    and "cell_of cols (validated_row env cols lo hi r) ''eventDate''
           = is_valid_date env lo hi (cell_of cols r ''eventDate'')"
  using assms
  by (simp_all add: validated_row_def cell_of_set_cell_other cell_of_set_cell_same
      length_set_cell)

lemma is_valid_date_notnull:
  "(is_valid_date env lo hi c \<noteq> Null) =
     (case to_datetime env c of Naive t \<Rightarrow> lo \<le> t \<and> t \<le> hi | _ \<Rightarrow> False)"
  by (simp add: is_valid_date_def split: parsed.splits)

lemma well_formed_row: "well_formed df \<Longrightarrow> r \<in> set (rows df) \<Longrightarrow> length r = length (columns df)"
  by (simp add: well_formed_def list_all_iff)

lemma validate_data_rows:
  assumes wf: "well_formed df"
    and res: "validate_data env df min_date max_date = Inr (out, c0, c1, c2)"
  shows "rows out =
           map (validated_row env (columns df) min_date max_date)
             (filter (\<lambda>r. coordinates_valid env (columns df) r \<and>
                          date_in_range env (columns df) min_date max_date r) (rows df))"
proof -
  let ?cols = "columns df"
  let ?V = "validated_row env ?cols min_date max_date"
  note inr = validate_data_Inr [OF res]
  have cols: "''decimalLatitude'' \<in> set ?cols" "''decimalLongitude'' \<in> set ?cols"
    "''eventDate'' \<in> set ?cols"
    using inr by simp_all
  have keep: "(cell_of ?cols (?V r) ''eventDate'' \<noteq> Null) = date_in_range env ?cols min_date max_date r"
    if "r \<in> set (rows df)" for r
    using validated_row_cells(3) [OF well_formed_row [OF wf that] cols]
    by (simp add: is_valid_date_notnull date_in_range_def)
  have "rows out = filter (\<lambda>r. cell_of ?cols r ''eventDate'' \<noteq> Null)
                     (map ?V (filter (coordinates_valid env ?cols) (rows df)))"
    using inr by (simp add: coord_mask_coordinates_valid)
  also have "\<dots> = map ?V (filter (\<lambda>r. cell_of ?cols (?V r) ''eventDate'' \<noteq> Null)
                     (filter (coordinates_valid env ?cols) (rows df)))"
    by (simp add: filter_map comp_def)
  also have "\<dots> = map ?V (filter (\<lambda>r. coordinates_valid env ?cols r \<and>
                                      cell_of ?cols (?V r) ''eventDate'' \<noteq> Null) (rows df))"
    by (simp add: conj_commute)
  also have "\<dots> = map ?V (filter (\<lambda>r. coordinates_valid env ?cols r \<and>
                                      date_in_range env ?cols min_date max_date r) (rows df))"
  proof -
    have "filter (\<lambda>r. coordinates_valid env ?cols r \<and>
                       cell_of ?cols (?V r) ''eventDate'' \<noteq> Null) (rows df) =
          filter (\<lambda>r. coordinates_valid env ?cols r \<and>
                       date_in_range env ?cols min_date max_date r) (rows df)"
      by (rule filter_cong) (simp_all add: keep)
    then show ?thesis by (rule arg_cong)
  qed
  finally show ?thesis .
qed

text \<open>
  C1. Every row that validate_data returns has its latitude in [-90, 90], its longitude in
  [-180, 180] and, as event date, the timestamp parsed from the input, which lies in
  [min_date, max_date]; the rows returned are the input rows that pass the coordinate,
  precision and date conditions; and the three counts are the number of input rows, the
  number of rows that pass the coordinate and precision conditions, and the number of rows
  that pass the date condition as well.
\<close>

theorem validate_data_rows_and_counts:
  assumes wf: "well_formed df"
    and res: "validate_data env df min_date max_date =
               Inr (out, initial_count, coord_valid_count, date_valid_count)"
  shows "(\<forall>r \<in> set (rows out).
            in_range (- 90) 90 (cell_of (columns out) r ''decimalLatitude'') \<and>
            in_range (- 180) 180 (cell_of (columns out) r ''decimalLongitude'') \<and>
            (\<exists>t. cell_of (columns out) r ''eventDate'' = Timestamp t \<and>
                 min_date \<le> t \<and> t \<le> max_date)) \<and>
         rows out =
           map (validated_row env (columns df) min_date max_date)
             (filter (\<lambda>r. coordinates_valid env (columns df) r \<and>
                          date_in_range env (columns df) min_date max_date r) (rows df)) \<and>
         initial_count = length (rows df) \<and>
         coord_valid_count = length (filter (coordinates_valid env (columns df)) (rows df)) \<and>
         date_valid_count =
           length (filter (\<lambda>r. coordinates_valid env (columns df) r \<and>
                                date_in_range env (columns df) min_date max_date r) (rows df))"
proof -
  let ?cols = "columns df"
  let ?V = "validated_row env ?cols min_date max_date"
  note inr = validate_data_Inr [OF res]
  have cols: "''decimalLatitude'' \<in> set ?cols" "''decimalLongitude'' \<in> set ?cols"
    "''eventDate'' \<in> set ?cols"
    using inr by simp_all
  have out_cols: "columns out = ?cols"
    using inr by simp
  note rows_out = validate_data_rows [OF wf res]
  have counts: "initial_count = length (rows df)"
    "coord_valid_count = length (filter (coordinates_valid env ?cols) (rows df))"
    "date_valid_count = length (rows out)"
    using inr by (simp_all add: coord_mask_coordinates_valid)
  have per_row: "in_range (- 90) 90 (cell_of ?cols r' ''decimalLatitude'') \<and>
      in_range (- 180) 180 (cell_of ?cols r' ''decimalLongitude'') \<and>
      (\<exists>t. cell_of ?cols r' ''eventDate'' = Timestamp t \<and> min_date \<le> t \<and> t \<le> max_date)"
    if "r' \<in> set (rows out)" for r'
  proof -
    from that rows_out obtain r where r: "r \<in> set (rows df)" "r' = ?V r"
      and ok: "coordinates_valid env ?cols r" "date_in_range env ?cols min_date max_date r"
      by auto
    note cells = validated_row_cells [OF well_formed_row [OF wf r(1)] cols, of env min_date max_date]
    have "in_range (- 90) 90 (cell_of ?cols r' ''decimalLatitude'')"
      using ok(1) by (simp add: r(2) cells(1) coordinates_valid_def in_range_round8_lat)
    moreover have "in_range (- 180) 180 (cell_of ?cols r' ''decimalLongitude'')"
      using ok(1) by (simp add: r(2) cells(2) coordinates_valid_def in_range_round8_lon)
    moreover have "\<exists>t. cell_of ?cols r' ''eventDate'' = Timestamp t \<and> min_date \<le> t \<and> t \<le> max_date"
      using ok(2)
      by (auto simp: r(2) cells(3) date_in_range_def is_valid_date_def split: parsed.splits)
    ultimately show ?thesis by blast
  qed
  have count2: "date_valid_count =
      length (filter (\<lambda>r. coordinates_valid env ?cols r \<and>
                           date_in_range env ?cols min_date max_date r) (rows df))"
    unfolding counts(3) rows_out by (rule length_map)
  show ?thesis
    unfolding out_cols
    by (intro conjI ballI per_row rows_out counts(1) counts(2) count2)
qed

lemma example_validate_data:
  "validate_data example_services example_cleaned 20000101 20231231 =
     Inr (example_validated, 6, 5, 4)"
  by code_simp

lemma example_cleaned_well_formed: "well_formed example_cleaned"
  by code_simp

theorem validate_data_rows_and_counts_witness:
  "well_formed example_cleaned \<and>
   validate_data example_services example_cleaned 20000101 20231231 =
     Inr (example_validated, 6, 5, 4) \<and>
   list_all (\<lambda>r. in_range (- 90) 90 (cell_of (columns example_validated) r ''decimalLatitude'') \<and>
            in_range (- 180) 180 (cell_of (columns example_validated) r ''decimalLongitude'') \<and>
            (\<exists>t. cell_of (columns example_validated) r ''eventDate'' = Timestamp t \<and>
                 20000101 \<le> t \<and> t \<le> 20231231)) (rows example_validated) \<and>
   5 = length (filter (coordinates_valid example_services (columns example_cleaned))
                 (rows example_cleaned)) \<and>
   4 = length (filter (\<lambda>r. coordinates_valid example_services (columns example_cleaned) r \<and>
                 date_in_range example_services (columns example_cleaned) 20000101 20231231 r)
                 (rows example_cleaned))"
  using validate_data_rows_and_counts [OF example_cleaned_well_formed example_validate_data]
    example_cleaned_well_formed example_validate_data
  by (simp add: list_all_iff)

subsection \<open>fetch_all_gbif_data\<close>

lemma replace_char_concat:
  "replace_char old new s = concat (map (\<lambda>c. if c = old then new else [c]) s)"
  by (induction s) simp_all

lemma length_rows_DataFrame: "length (rows (DataFrame records)) = length records"
  by (simp add: DataFrame_def Let_def)

lemma offsets_shift:
  "off # map (\<lambda>i. off + p + int i * p) [0..<Suc k] = map (\<lambda>i. off + int i * p) [0..<Suc (Suc k)]"
proof -
  have "map (\<lambda>i. off + int i * p) [0..<Suc (Suc k)]
      = (off + int 0 * p) # map (\<lambda>i. off + int (Suc i) * p) [0..<Suc k]"
    by (rule map_upt_Suc)
  also have "(\<lambda>i. off + int (Suc i) * p) = (\<lambda>i. off + p + int i * p)"
    by (rule ext) (simp add: algebra_simps)
  also have "off + int 0 * p = off"
    by simp
  finally show ?thesis
    by (rule sym)
qed

lemma pages_shift:
  "page 0 @ concat (map (\<lambda>i. page (Suc i)) [0..<k]) = concat (map page [0..<Suc k])"
  by (simp only: map_upt_Suc concat.simps)

lemma fetch_loop_pages:
  assumes "\<forall>i<k. search (off + int i * p) = Inr (page i) \<and> page i \<noteq> []"
    and "search (off + int k * p) = Inr []"
  shows "fetch_loop search p acc off reqs =
           Some (reqs @ map (\<lambda>i. off + int i * p) [0..<Suc k],
                 Inr (acc @ concat (map page [0..<k])))"
  using assms
proof (induction k arbitrary: acc off reqs page)
  case 0
  then show ?case
    by (subst fetch_loop.simps) simp
next
  case (Suc k)
  have first: "search off = Inr (page 0)" "page 0 \<noteq> []"
    using Suc.prems(1) by force+
  have rest: "\<forall>i<k. search (off + p + int i * p) = Inr (page (Suc i)) \<and> page (Suc i) \<noteq> []"
  proof (intro allI impI)
    fix i assume "i < k"
    then have "Suc i < Suc k"
      by simp
    with Suc.prems(1)
    have "search (off + int (Suc i) * p) = Inr (page (Suc i)) \<and> page (Suc i) \<noteq> []"
      by blast
    then show "search (off + p + int i * p) = Inr (page (Suc i)) \<and> page (Suc i) \<noteq> []"
      by (simp add: algebra_simps)
  qed
  have last: "search (off + p + int k * p) = Inr []"
    using Suc.prems(2) by (simp add: algebra_simps)
  have "fetch_loop search p acc off reqs
      = fetch_loop search p (acc @ page 0) (off + p) (reqs @ [off])"
    by (subst fetch_loop.simps) (simp add: first)
  also have "\<dots> = Some ((reqs @ [off]) @ map (\<lambda>i. off + p + int i * p) [0..<Suc k],
                 Inr ((acc @ page 0) @ concat (map (\<lambda>i. page (Suc i)) [0..<k])))"
    by (rule Suc.IH [OF rest last])
  also have "(reqs @ [off]) @ map (\<lambda>i. off + p + int i * p) [0..<Suc k]
      = reqs @ map (\<lambda>i. off + int i * p) [0..<Suc (Suc k)]"
    using offsets_shift [of off p k] by simp
  also have "(acc @ page 0) @ concat (map (\<lambda>i. page (Suc i)) [0..<k])
      = acc @ concat (map page [0..<Suc k])"
    using pages_shift [of page k] by simp
  finally show ?case .
qed

text \<open>
  C3. When the pages at the offsets 0, p, ..., (k-1)p are not empty and the page at the offset
  kp is empty, the fetch requests exactly the offsets 0, p, ..., kp in this order, and returns
  the DataFrame of the k pages concatenated in this order, with the search URL in which
  every space of the species name is replaced by \<open>%20\<close>; the DataFrame has one row per record.
\<close>

theorem fetch_all_gbif_data_pages:
  assumes "\<forall>i<k. occurrences_search env species_name p (int i * p) = Inr (page i) \<and> page i \<noteq> []"
    and "occurrences_search env species_name p (int k * p) = Inr []"
  shows "fetch_all_gbif_data env species_name p =
           Some (map (\<lambda>i. int i * p) [0..<Suc k],
                 Inr (DataFrame (concat (map page [0..<k])),
                      ''https://www.gbif.org/occurrence/search?scientificName='' @
                        concat (map (\<lambda>c. if c = CHR '' '' then ''%20'' else [c]) species_name))) \<and>
         length (rows (DataFrame (concat (map page [0..<k])))) = (\<Sum>i<k. length (page i))"
proof -
  have "fetch_loop (occurrences_search env species_name p) p [] 0 [] =
          Some ([] @ map (\<lambda>i. 0 + int i * p) [0..<Suc k],
                Inr ([] @ concat (map page [0..<k])))"
    by (rule fetch_loop_pages) (use assms in simp_all)
  then have "fetch_all_gbif_data env species_name p =
           Some (map (\<lambda>i. int i * p) [0..<Suc k],
                 Inr (DataFrame (concat (map page [0..<k])),
                      ''https://www.gbif.org/occurrence/search?scientificName='' @
                        concat (map (\<lambda>c. if c = CHR '' '' then ''%20'' else [c]) species_name)))"
    by (simp add: fetch_all_gbif_data_def gbif_url_def replace_char_concat)
  moreover have "length (concat (map page [0..<k])) = (\<Sum>i<k. length (page i))"
    by (simp add: length_concat comp_def sum_list_sum_nth atLeast0LessThan)
  ultimately show ?thesis
    by (simp add: length_rows_DataFrame)
qed

theorem fetch_all_gbif_data_pages_witness:
  "fetch_all_gbif_data (example_services\<lparr>occurrences_search := paged_search\<rparr>)
       ''Panthera onca'' 5000 =
     Some ([0, 5000, 10000, 15000],
           Inr (DataFrame
                  (replicate 5000 (example_record 1 ''Panthera onca'' 1.2345 1.2345 ''2020-05-03'') @
                   replicate 5000 (example_record 1 ''Panthera onca'' 1.2345 1.2345 ''2020-05-03'') @
                   replicate 1200 (example_record 1 ''Panthera onca'' 1.2345 1.2345 ''2020-05-03'')),
                ''https://www.gbif.org/occurrence/search?scientificName=Panthera%20onca'')) \<and>
   length (rows (DataFrame
                  (replicate 5000 (example_record 1 ''Panthera onca'' 1.2345 1.2345 ''2020-05-03'') @
                   replicate 5000 (example_record 1 ''Panthera onca'' 1.2345 1.2345 ''2020-05-03'') @
                   replicate 1200 (example_record 1 ''Panthera onca'' 1.2345 1.2345 ''2020-05-03''))))
     = 11200"
proof -
  define r where "r = example_record 1 ''Panthera onca'' 1.2345 1.2345 ''2020-05-03''"
  define page where "page = (\<lambda>i::nat. if i < 2 then replicate 5000 r else replicate 1200 r)"
  define env where "env = example_services\<lparr>occurrences_search := paged_search\<rparr>"
  have search: "occurrences_search env ''Panthera onca'' 5000 = paged_search ''Panthera onca'' 5000"
    by (simp add: env_def)
  have pages: "\<forall>i<3. occurrences_search env ''Panthera onca'' 5000 (int i * 5000) = Inr (page i)
      \<and> page i \<noteq> []"
    unfolding search
    by (simp add: numeral_3_eq_3 less_Suc_eq paged_search_def page_def r_def)
  have last: "occurrences_search env ''Panthera onca'' 5000 (int 3 * 5000) = Inr []"
    unfolding search by (simp add: paged_search_def)
  have offsets: "map (\<lambda>i. int i * 5000) [0..<Suc 3] = [0, 5000, 10000, 15000]"
    by (simp add: upt_rec)
  have records: "concat (map page [0..<3]) = replicate 5000 r @ replicate 5000 r @ replicate 1200 r"
    by (simp add: upt_rec page_def)
  have total: "(\<Sum>i<3. length (page i)) = 11200"
    by (simp add: numeral_3_eq_3 page_def)
  have url: "''https://www.gbif.org/occurrence/search?scientificName='' @
        concat (map (\<lambda>c. if c = CHR '' '' then ''%20'' else [c]) ''Panthera onca'')
      = ''https://www.gbif.org/occurrence/search?scientificName=Panthera%20onca''"
    by simp
  show ?thesis
    using fetch_all_gbif_data_pages [of 3 env "''Panthera onca''" 5000 page, OF pages last]
    unfolding offsets records total url
    unfolding env_def r_def .
qed

subsection \<open>validate_georeferencing\<close>

lemma geocode_point_located:
  "geocode_point env (cell_of cols r ''decimalLatitude'') (cell_of cols r ''decimalLongitude'')
     = Inr ok \<Longrightarrow> ok = located env cols r"
  by (auto simp: geocode_point_def located_def split: sum.splits option.splits error.splits)

lemma geocode_point_answered:
  "lookup_answered env cols r \<Longrightarrow>
     geocode_point env (cell_of cols r ''decimalLatitude'') (cell_of cols r ''decimalLongitude'')
       = Inr (located env cols r)"
  by (auto simp: geocode_point_def located_def lookup_answered_def
      split: sum.splits option.splits error.splits)

lemma georeferencing_loop_Inr:
  "georeferencing_loop env cols valid rs = Inr res \<Longrightarrow>
     res = valid @ filter (located env cols) rs"
proof (induction rs arbitrary: valid)
  case Nil
  then show ?case by simp
next
  case (Cons r rs)
  from Cons.prems obtain ok where
    ok: "geocode_point env (cell_of cols r ''decimalLatitude'')
           (cell_of cols r ''decimalLongitude'') = Inr ok"
    and rest: "georeferencing_loop env cols (if ok then valid @ [r] else valid) rs = Inr res"
    by (auto split: if_splits sum.splits)
  from Cons.IH [OF rest] geocode_point_located [OF ok] show ?case
    by simp
qed

lemma georeferencing_loop_total:
  assumes "\<forall>r \<in> set rs. lookup_answered env cols r"
    and "rs \<noteq> [] \<longrightarrow> ''decimalLatitude'' \<in> set cols \<and> ''decimalLongitude'' \<in> set cols"
  shows "georeferencing_loop env cols valid rs = Inr (valid @ filter (located env cols) rs)"
  using assms
proof (induction rs arbitrary: valid)
  case Nil
  then show ?case by simp
next
  case (Cons r rs)
  have cols: "''decimalLatitude'' \<in> set cols" "''decimalLongitude'' \<in> set cols"
    using Cons.prems(2) by simp_all
  have point: "geocode_point env (cell_of cols r ''decimalLatitude'')
      (cell_of cols r ''decimalLongitude'') = Inr (located env cols r)"
    using Cons.prems(1) by (simp add: geocode_point_answered)
  have "georeferencing_loop env cols (if located env cols r then valid @ [r] else valid) rs
      = Inr ((if located env cols r then valid @ [r] else valid) @ filter (located env cols) rs)"
    using Cons.prems(1) cols by (intro Cons.IH) simp_all
  then show ?case
    by (simp add: cols point)
qed

lemma rows_DataFrame_of_rows: "rows (DataFrame_of_rows cols rs) = rs"
  by (simp add: DataFrame_of_rows_def)

lemma validate_georeferencing_Inr:
  "validate_georeferencing env df = Inr out \<Longrightarrow>
     out = DataFrame_of_rows (columns df) (filter (located env (columns df)) (rows df))"
  by (auto simp: validate_georeferencing_def split: sum.splits
      dest: georeferencing_loop_Inr)

text \<open>
  C6. When the frame has the two coordinate columns and no reverse lookup ends in an error
  other than the time-out, validate_georeferencing returns without error, and the rows it
  returns are, in order, exactly the rows whose lookup gave a location: a row whose lookup
  timed out or found nothing is dropped, and the rows after it are still processed.
\<close>

theorem validate_georeferencing_keeps_located:
  assumes "\<forall>r \<in> set (rows df). lookup_answered env (columns df) r"
    and "''decimalLatitude'' \<in> set (columns df)" and "''decimalLongitude'' \<in> set (columns df)"
  shows "\<exists>out. validate_georeferencing env df = Inr out \<and>
           rows out = filter (located env (columns df)) (rows df) \<and>
           (\<forall>r \<in> set (rows df). r \<in> set (rows out) \<longleftrightarrow>
              (\<exists>location. geolocator_reverse env
                 (cell_of (columns df) r ''decimalLatitude'',
                  cell_of (columns df) r ''decimalLongitude'') 10 = Inr (Some location)))"
proof -
  have loop: "georeferencing_loop env (columns df) [] (rows df)
      = Inr ([] @ filter (located env (columns df)) (rows df))"
    using assms by (intro georeferencing_loop_total) simp_all
  have "located env (columns df) r \<longleftrightarrow>
      (\<exists>location. geolocator_reverse env
         (cell_of (columns df) r ''decimalLatitude'',
          cell_of (columns df) r ''decimalLongitude'') 10 = Inr (Some location))" for r
    by (auto simp: located_def split: sum.splits option.splits)
  then show ?thesis
    using loop by (simp add: validate_georeferencing_def rows_DataFrame_of_rows)
qed

lemma example_validate_georeferencing:
  "validate_georeferencing example_services example_validated = Inr example_georeferenced"
  by code_simp

lemma example_lookups_answered:
  "list_all (lookup_answered example_services (columns example_validated))
     (rows example_validated)"
  by code_simp

lemma example_validated_columns:
  "''decimalLatitude'' \<in> set (columns example_validated) \<and>
   ''decimalLongitude'' \<in> set (columns example_validated)"
  by code_simp

lemma example_timeout:
  "geolocator_reverse example_services (Num 0.001, Num (- 150.5001)) 10 = Inl GeocoderTimedOut"
  by code_simp

theorem validate_georeferencing_keeps_located_witness:
  "list_all (lookup_answered example_services (columns example_validated))
     (rows example_validated) \<and>
   ''decimalLatitude'' \<in> set (columns example_validated) \<and>
   ''decimalLongitude'' \<in> set (columns example_validated) \<and>
   geolocator_reverse example_services (Num 0.001, Num (- 150.5001)) 10 = Inl GeocoderTimedOut \<and>
   validate_georeferencing example_services example_validated = Inr example_georeferenced \<and>
   rows example_georeferenced =
     filter (located example_services (columns example_validated)) (rows example_validated)"
  using validate_georeferencing_keeps_located [of example_validated example_services]
    example_validate_georeferencing example_lookups_answered example_validated_columns
    example_timeout
  by (simp add: list_all_iff)

subsection \<open>taxonomic_validation\<close>

lemma validate_taxonomic_name_accepted:
  "validate_taxonomic_name env name = Inr k \<Longrightarrow> truthy k = name_accepted env name"
  by (auto simp: validate_taxonomic_name_def name_accepted_def
      split: sum.splits option.splits if_splits)

lemma valid_species_loop_Inr:
  "valid_species_loop env valid names = Inr res \<Longrightarrow>
     res = valid @ filter (name_accepted env) names"
proof (induction names arbitrary: valid)
  case Nil
  then show ?case by simp
next
  case (Cons name names)
  from Cons.prems obtain k where
    k: "validate_taxonomic_name env name = Inr k"
    and rest: "valid_species_loop env (if truthy k then valid @ [name] else valid) names = Inr res"
    by (auto split: sum.splits)
  from Cons.IH [OF rest] validate_taxonomic_name_accepted [OF k] show ?case
    by simp
qed

lemma taxonomic_validation_Inr:
  assumes "taxonomic_validation env df = Inr (out, n)"
  shows "''species'' \<in> set (columns df)"
    and "out = \<lparr>columns = columns df,
                rows = filter (\<lambda>r. name_accepted env (cell_of (columns df) r ''species''))
                         (rows df)\<rparr>"
    and "n = length (filter (name_accepted env)
                 (unique (map (\<lambda>r. cell_of (columns df) r ''species'') (rows df))))"
proof -
  let ?names = "unique (map (\<lambda>r. cell_of (columns df) r ''species'') (rows df))"
  from assms show cols: "''species'' \<in> set (columns df)"
    by (auto simp: taxonomic_validation_def Let_def split: if_splits)
  from assms cols obtain valid where
    loop: "valid_species_loop env [] ?names = Inr valid"
    and out: "out = \<lparr>columns = columns df,
        rows = filter (\<lambda>r. cell_of (columns df) r ''species'' \<in> set valid) (rows df)\<rparr>"
    and n: "n = length valid"
    by (auto simp: taxonomic_validation_def Let_def split: sum.splits)
  from valid_species_loop_Inr [OF loop]
  have valid: "valid = filter (name_accepted env) ?names"
    by simp
  have "filter (\<lambda>r. cell_of (columns df) r ''species'' \<in> set valid) (rows df)
      = filter (\<lambda>r. name_accepted env (cell_of (columns df) r ''species'')) (rows df)"
    by (rule filter_cong) (auto simp: valid set_unique)
  with out show "out = \<lparr>columns = columns df,
      rows = filter (\<lambda>r. name_accepted env (cell_of (columns df) r ''species'')) (rows df)\<rparr>"
    by simp
  from n valid show "n = length (filter (name_accepted env) ?names)"
    by simp
qed

text \<open>
  C10. A row is kept by taxonomic_validation exactly when the backbone's match for its
  species name has a match type other than \<open>'NONE'\<close> and a usage key that is true; so the rows
  of a name matched with the usage key 0 are dropped.
\<close>

theorem taxonomic_validation_needs_truthy_key:
  assumes "taxonomic_validation env df = Inr (out, n)"
  shows "\<forall>r \<in> set (rows df).
           r \<in> set (rows out) \<longleftrightarrow>
             (\<exists>match match_type usage_key.
                name_backbone env (cell_of (columns df) r ''species'') = Inr match \<and>
                map_of match ''matchType'' = Some match_type \<and> match_type \<noteq> Str ''NONE'' \<and>
                map_of match ''usageKey'' = Some usage_key \<and> truthy usage_key)"
proof
  fix r
  assume r: "r \<in> set (rows df)"
  have "name_accepted env name \<longleftrightarrow>
      (\<exists>match match_type usage_key.
         name_backbone env name = Inr match \<and>
         map_of match ''matchType'' = Some match_type \<and> match_type \<noteq> Str ''NONE'' \<and>
         map_of match ''usageKey'' = Some usage_key \<and> truthy usage_key)" for name
    by (auto simp: name_accepted_def split: sum.splits option.splits)
  then show "r \<in> set (rows out) \<longleftrightarrow>
      (\<exists>match match_type usage_key.
         name_backbone env (cell_of (columns df) r ''species'') = Inr match \<and>
         map_of match ''matchType'' = Some match_type \<and> match_type \<noteq> Str ''NONE'' \<and>
         map_of match ''usageKey'' = Some usage_key \<and> truthy usage_key)"
    using r by (simp add: taxonomic_validation_Inr(2) [OF assms])
qed

lemma zero_key_taxonomic_validation:
  "taxonomic_validation example_services zero_key_frame = Inr (example_taxonomic, 1)"
  by code_simp

lemma zero_key_match:
  "name_backbone example_services (Str ''incertae sedis'') =
     Inr [(''usageKey'', Num 0), (''matchType'', Str ''EXACT'')]"
  by code_simp

lemma zero_key_species:
  "map (\<lambda>r. cell_of (columns zero_key_frame) r ''species'') (rows zero_key_frame) =
     [Str ''incertae sedis'', Str ''Panthera onca'']"
  by code_simp

theorem taxonomic_validation_needs_truthy_key_witness:
  "taxonomic_validation example_services zero_key_frame = Inr (example_taxonomic, 1) \<and>
   map (\<lambda>r. cell_of (columns zero_key_frame) r ''species'') (rows zero_key_frame) =
     [Str ''incertae sedis'', Str ''Panthera onca''] \<and>
   name_backbone example_services (Str ''incertae sedis'') =
     Inr [(''usageKey'', Num 0), (''matchType'', Str ''EXACT'')] \<and>
   list_all
     (\<lambda>r. r \<in> set (rows example_taxonomic) \<longleftrightarrow>
        (\<exists>match match_type usage_key.
           name_backbone example_services (cell_of (columns zero_key_frame) r ''species'')
             = Inr match \<and>
           map_of match ''matchType'' = Some match_type \<and> match_type \<noteq> Str ''NONE'' \<and>
           map_of match ''usageKey'' = Some usage_key \<and> truthy usage_key))
     (rows zero_key_frame)"
  using taxonomic_validation_needs_truthy_key [OF zero_key_taxonomic_validation]
    zero_key_taxonomic_validation zero_key_match zero_key_species
  by (simp add: list_all_iff)

lemma length_filter_unique:
  "length (filter P (unique xs)) = card {x \<in> set xs. P x}"
proof -
  have "distinct (filter P (unique xs))"
    by (simp add: distinct_unique)
  then have "card (set (filter P (unique xs))) = length (filter P (unique xs))"
    by (rule distinct_card)
  moreover have "set (filter P (unique xs)) = {x \<in> set xs. P x}"
    by (simp add: set_unique)
  ultimately show ?thesis
    by simp
qed

text \<open>What taxonomic_validation returns, in terms of the names it accepts: the rows of these
  names, in order, and the number of distinct such names.\<close>

lemma taxonomic_validation_keeps_accepted:
  assumes "taxonomic_validation env df = Inr (out, n)"
  shows "columns out = columns df \<and>
         rows out = filter (\<lambda>r. name_accepted env (cell_of (columns df) r ''species'')) (rows df) \<and>
         n = card {name \<in> set (map (\<lambda>r. cell_of (columns df) r ''species'') (rows df)).
                     name_accepted env name}"
  using taxonomic_validation_Inr [OF assms]
  by (simp only: length_filter_unique dataframe.simps simp_thms)

lemma example_taxonomic_validation:
  "taxonomic_validation example_services example_georeferenced = Inr (example_taxonomic, 1)"
  by code_simp

text \<open>
  C4. The example backbone matches \<open>incertae sedis\<close> exactly, with the usage key 0. The match
  type is other than \<open>'NONE'\<close> and a usage key is returned, so the name is valid: both rows of
  the frame belong to the output and two valid names are to be counted. The code drops the
  row of \<open>incertae sedis\<close> and counts one name, because it tests the truth value of the key
  returned, and the key 0 is false.
\<close>

theorem taxonomic_validation_drops_matched_name:
  "name_backbone example_services (Str ''incertae sedis'') =
     Inr [(''usageKey'', Num 0), (''matchType'', Str ''EXACT'')] \<and>
   filter (\<lambda>r. name_matched example_services (cell_of (columns zero_key_frame) r ''species''))
     (rows zero_key_frame) = rows zero_key_frame \<and>
   length (filter (name_matched example_services)
             (unique (map (\<lambda>r. cell_of (columns zero_key_frame) r ''species'')
                        (rows zero_key_frame)))) = 2 \<and>
   taxonomic_validation example_services zero_key_frame = Inr (example_taxonomic, 1) \<and>
   rows example_taxonomic \<noteq> rows zero_key_frame"
  by code_simp

subsection \<open>validate_points_within_shapefile\<close>

lemma cell_of_append_new:
  assumes "length r = length cols" and "name \<notin> set cols"
  shows "cell_of (cols @ [name]) (r @ [v]) name = v"
proof -
  have none: "map_of (zip cols r) name = None"
    using assms by (simp add: map_of_zip_is_None)
  show ?thesis
    using assms(1) by (simp add: cell_of_def map_add_def none)
qed

lemma cell_of_assign_column:
  assumes "length r = length (columns df)"
  shows "cell_of (columns (assign_column name vals df))
           (if name \<in> set (columns df) then set_cell (columns df) name (\<lambda>_. v) r else r @ [v])
           name = v"
  using assms
  by (simp add: assign_column_def cell_of_append_new cell_of_set_cell_same)

lemma rows_assign_column:
  "rows (assign_column name vals df) =
     map (\<lambda>(r, v). if name \<in> set (columns df)
                    then set_cell (columns df) name (\<lambda>_. v) r else r @ [v])
       (zip (rows df) vals)"
  by (simp add: assign_column_def)

text \<open>
  C7. For every row of a well-formed frame, the cell \<open>within_shapefile\<close> of the row returned
  at the same position is true exactly when some geometry of the boundary set contains the
  point (longitude, latitude) of the row: one containing geometry among several is enough,
  and with no containing geometry the cell is false.
\<close>

theorem validate_points_within_shapefile_any:
  assumes "well_formed df"
    and "validate_points_within_shapefile contains df shp = Inr gdf"
  shows "length (rows (frame gdf)) = length (rows df) \<and>
         (\<forall>i < length (rows df).
            cell_of (columns (frame gdf)) (rows (frame gdf) ! i) ''within_shapefile'' =
              Bool (\<exists>g \<in> set (geometries shp).
                      contains g (cell_of (columns df) (rows df ! i) ''decimalLongitude'',
                                  cell_of (columns df) (rows df ! i) ''decimalLatitude'')))"
proof -
  let ?point = "\<lambda>r. (cell_of (columns df) r ''decimalLongitude'',
                      cell_of (columns df) r ''decimalLatitude'')"
  let ?flag = "\<lambda>r. Bool (list_ex (\<lambda>g. contains g (?point r)) (geometries shp))"
  let ?flags = "map ?flag (rows df)"
  have fr: "frame gdf = assign_column ''within_shapefile'' ?flags df"
    using assms(2)
    by (auto simp: validate_points_within_shapefile_def Let_def comp_def split: if_splits)
  have len: "length (rows (frame gdf)) = length (rows df)"
    by (simp add: fr rows_assign_column)
  have "cell_of (columns (frame gdf)) (rows (frame gdf) ! i) ''within_shapefile'' =
          Bool (\<exists>g \<in> set (geometries shp). contains g (?point (rows df ! i)))"
    if i: "i < length (rows df)" for i
  proof -
    have "rows df ! i \<in> set (rows df)"
      using i by simp
    then have wf: "length (rows df ! i) = length (columns df)"
      using assms(1) by (simp add: well_formed_row)
    have "rows (frame gdf) ! i =
        (if ''within_shapefile'' \<in> set (columns df)
         then set_cell (columns df) ''within_shapefile'' (\<lambda>_. ?flag (rows df ! i)) (rows df ! i)
         else rows df ! i @ [?flag (rows df ! i)])"
      using i by (simp add: fr rows_assign_column)
    then show ?thesis
      using cell_of_assign_column [OF wf, of "''within_shapefile''" ?flags "?flag (rows df ! i)"]
      by (simp only: fr list_ex_iff)
  qed
  with len show ?thesis
    by blast
qed

lemma example_points_well_formed: "well_formed example_points"
  by code_simp

lemma example_within_shapefile:
  "validate_points_within_shapefile box_contains example_points example_boundary
     = Inr example_flagged"
  by code_simp

lemma example_flag_cells:
  "map (\<lambda>r. cell_of (columns (frame example_flagged)) r ''within_shapefile'')
     (rows (frame example_flagged)) = [Bool True, Bool True, Bool False]"
  by code_simp

theorem validate_points_within_shapefile_any_witness:
  "well_formed example_points \<and>
   validate_points_within_shapefile box_contains example_points example_boundary
     = Inr example_flagged \<and>
   length (rows (frame example_flagged)) = length (rows example_points) \<and>
   map (\<lambda>r. cell_of (columns (frame example_flagged)) r ''within_shapefile'')
     (rows (frame example_flagged)) = [Bool True, Bool True, Bool False] \<and>
   cell_of (columns (frame example_flagged)) (rows (frame example_flagged) ! 1)
       ''within_shapefile'' =
     Bool (\<exists>g \<in> set (geometries example_boundary).
             box_contains g
               (cell_of (columns example_points) (rows example_points ! 1) ''decimalLongitude'',
                cell_of (columns example_points) (rows example_points ! 1) ''decimalLatitude''))"
proof -
  note inst = validate_points_within_shapefile_any
    [OF example_points_well_formed example_within_shapefile]
  have "(1::nat) < length (rows example_points)"
    by code_simp
  with inst have "cell_of (columns (frame example_flagged)) (rows (frame example_flagged) ! 1)
       ''within_shapefile'' =
     Bool (\<exists>g \<in> set (geometries example_boundary).
             box_contains g
               (cell_of (columns example_points) (rows example_points ! 1) ''decimalLongitude'',
                cell_of (columns example_points) (rows example_points ! 1) ''decimalLatitude''))"
    by blast
  with inst show ?thesis
    using example_points_well_formed example_within_shapefile example_flag_cells
    by simp
qed

subsection \<open>The stages of curate_data\<close>

lemma initial_cleaning_subseq:
  "initial_cleaning df = Inr d \<Longrightarrow>
     subseq (rows d) (map (\<lambda>r. map (cell_of (columns df) r) required_columns) (rows df))"
  by (auto dest!: initial_cleaning_Inr simp: subseq_unique)

lemma validate_data_subseq:
  assumes "validate_data env df min_date max_date = Inr (out, c0, c1, c2)"
  shows "subseq (rows out) (map (validated_row env (columns df) min_date max_date) (rows df))"
proof -
  let ?V = "validated_row env (columns df) min_date max_date"
  let ?kept = "map ?V (filter (coord_mask env (columns df)) (rows df))"
  have out: "rows out = filter (\<lambda>r. cell_of (columns df) r ''eventDate'' \<noteq> Null) ?kept"
    using validate_data_Inr [OF assms] by simp
  have "subseq (rows out) ?kept"
    unfolding out by (rule subseq_filter_left)
  moreover have "subseq ?kept (map ?V (rows df))"
    by (intro subseq_map subseq_filter_left)
  ultimately show ?thesis
    by (rule subseq_order.order_trans)
qed

lemma validated_row_other_cells:
  assumes "name \<noteq> ''decimalLatitude''" and "name \<noteq> ''decimalLongitude''"
    and "name \<noteq> ''eventDate''"
  shows "cell_of cols (validated_row env cols min_date max_date r) name = cell_of cols r name"
  using assms by (simp add: validated_row_def cell_of_set_cell_other)

lemma validate_georeferencing_subseq:
  "validate_georeferencing env df = Inr out \<Longrightarrow> subseq (rows out) (rows df)"
  by (auto dest!: validate_georeferencing_Inr simp: rows_DataFrame_of_rows)

lemma validate_georeferencing_columns:
  "validate_georeferencing env df = Inr out \<Longrightarrow> columns out = [] \<or> columns out = columns df"
  by (auto dest!: validate_georeferencing_Inr simp: DataFrame_of_rows_def)

lemma taxonomic_validation_subseq:
  assumes "taxonomic_validation env df = Inr (out, n)"
  shows "subseq (rows out) (rows df)"
  using taxonomic_validation_Inr(2) [OF assms] by simp

lemma enrich_data_new_column:
  "''dataSource'' \<notin> set (columns df) \<Longrightarrow>
     enrich_data df = \<lparr>columns = columns df @ [''dataSource''],
                       rows = map (\<lambda>r. r @ [Str ''GBIF'']) (rows df)\<rparr>"
  by (simp add: enrich_data_def)

lemma dataSource_not_required: "''dataSource'' \<notin> set required_columns"
  by (simp add: required_columns_def)

text \<open>
  C5, as amended. No stage invents a row, and the rows stay in order. The rows after cleaning
  are projections of raw rows onto the nine columns. The rows after validate_data are rows of
  the cleaned data with the two coordinates rounded and the event date replaced by its parsed
  value, every other cell unchanged. The rows after the georeference and the taxonomic
  validation are rows of the stage before, unchanged. Enrichment returns every row with the
  cell \<open>GBIF\<close> added as a last column.
\<close>

theorem curate_data_stages_only_filter:
  assumes "initial_cleaning raw_data = Inr cleaned_data"
    and "validate_data env cleaned_data min_date max_date = Inr (validated_data, c0, c1, c2)"
    and "validate_georeferencing env validated_data = Inr georeferenced_data"
    and "taxonomic_validation env georeferenced_data = Inr (taxonomic_data, n)"
  shows "subseq (rows cleaned_data)
           (map (\<lambda>r. map (cell_of (columns raw_data) r) required_columns) (rows raw_data)) \<and>
         subseq (rows validated_data)
           (map (validated_row env required_columns min_date max_date) (rows cleaned_data)) \<and>
         (\<forall>r name. name \<notin> {''decimalLatitude'', ''decimalLongitude'', ''eventDate''} \<longrightarrow>
            cell_of required_columns (validated_row env required_columns min_date max_date r) name
              = cell_of required_columns r name) \<and>
         subseq (rows georeferenced_data) (rows validated_data) \<and>
         subseq (rows taxonomic_data) (rows georeferenced_data) \<and>
         rows (enrich_data taxonomic_data) = map (\<lambda>r. r @ [Str ''GBIF'']) (rows taxonomic_data)"
proof -
  have c1: "columns cleaned_data = required_columns"
    using initial_cleaning_Inr [OF assms(1)] by simp
  have c2: "columns validated_data = required_columns"
    using validate_data_Inr [OF assms(2)] c1 by simp
  have c3: "columns georeferenced_data = [] \<or> columns georeferenced_data = required_columns"
    using validate_georeferencing_columns [OF assms(3)] c2 by simp
  have c4: "columns taxonomic_data = columns georeferenced_data"
    using taxonomic_validation_Inr(2) [OF assms(4)] by simp
  have "''dataSource'' \<notin> set (columns taxonomic_data)"
    using c3 c4 dataSource_not_required by auto
  then have enrich: "rows (enrich_data taxonomic_data)
      = map (\<lambda>r. r @ [Str ''GBIF'']) (rows taxonomic_data)"
    by (simp add: enrich_data_new_column)
  have validated: "subseq (rows validated_data)
      (map (validated_row env required_columns min_date max_date) (rows cleaned_data))"
    using validate_data_subseq [OF assms(2)] c1 by simp
  have other: "\<forall>r name. name \<notin> {''decimalLatitude'', ''decimalLongitude'', ''eventDate''} \<longrightarrow>
      cell_of required_columns (validated_row env required_columns min_date max_date r) name
        = cell_of required_columns r name"
    by (simp add: validated_row_other_cells)
  show ?thesis
    by (intro conjI initial_cleaning_subseq [OF assms(1)] validated other
        validate_georeferencing_subseq [OF assms(3)] taxonomic_validation_subseq [OF assms(4)]
        enrich)
qed

theorem curate_data_stages_only_filter_witness:
  "initial_cleaning (DataFrame example_records) = Inr example_cleaned \<and>
   validate_data example_services example_cleaned 20000101 20231231
     = Inr (example_validated, 6, 5, 4) \<and>
   validate_georeferencing example_services example_validated = Inr example_georeferenced \<and>
   taxonomic_validation example_services example_georeferenced = Inr (example_taxonomic, 1) \<and>
   subseq (rows example_cleaned)
     (map (\<lambda>r. map (cell_of (columns (DataFrame example_records)) r) required_columns)
        (rows (DataFrame example_records))) \<and>
   subseq (rows example_validated)
     (map (validated_row example_services required_columns 20000101 20231231)
        (rows example_cleaned)) \<and>
   cell_of required_columns
     (validated_row example_services required_columns 20000101 20231231
        (example_row ''Panthera onca'' (Num (- 3.4653)) (Num (- 62.2159)) (Str ''2020-05-03'')))
     ''country''
     = cell_of required_columns
         (example_row ''Panthera onca'' (Num (- 3.4653)) (Num (- 62.2159)) (Str ''2020-05-03''))
         ''country'' \<and>
   subseq (rows example_georeferenced) (rows example_validated) \<and>
   subseq (rows example_taxonomic) (rows example_georeferenced) \<and>
   rows (enrich_data example_taxonomic) = map (\<lambda>r. r @ [Str ''GBIF'']) (rows example_taxonomic)"
  using curate_data_stages_only_filter
    [OF example_initial_cleaning example_validate_data example_validate_georeferencing
      example_taxonomic_validation]
    example_initial_cleaning example_validate_data example_validate_georeferencing
    example_taxonomic_validation
  by simp

text \<open>
  C5, as stated, fails at validate_data: the row it returns for the first example record has
  the timestamp 2020-05-03 as its event date, and no row of the cleaned data, which has
  the same columns, has this value: there the event date is the string \<open>2020-05-03\<close>.
\<close>

theorem validate_data_replaces_event_date:
  "validate_data example_services example_cleaned 20000101 20231231
     = Inr (example_validated, 6, 5, 4) \<and>
   columns example_validated = columns example_cleaned \<and>
   example_row ''Panthera onca'' (Num (- 3.4653)) (Num (- 62.2159)) (Timestamp 20200503)
     \<in> set (rows example_validated) \<and>
   example_row ''Panthera onca'' (Num (- 3.4653)) (Num (- 62.2159)) (Timestamp 20200503)
     \<notin> set (rows example_cleaned) \<and>
   example_row ''Panthera onca'' (Num (- 3.4653)) (Num (- 62.2159)) (Str ''2020-05-03'')
     \<in> set (rows example_cleaned)"
  by code_simp

subsection \<open>A stage that leaves no row\<close>

lemma DataFrame_Nil: "DataFrame [] = \<lparr>columns = [], rows = []\<rparr>"
  by (simp add: DataFrame_def unique_def)

lemma initial_cleaning_no_columns:
  "initial_cleaning \<lparr>columns = [], rows = rs\<rparr> = Inl (KeyError required_columns)"
  by (simp add: initial_cleaning_def required_columns_def)

lemma taxonomic_validation_no_columns:
  "taxonomic_validation env \<lparr>columns = [], rows = rs\<rparr> = Inl (KeyError [''species''])"
  by (simp add: taxonomic_validation_def)

lemma fetch_all_gbif_data_nothing:
  assumes "occurrences_search env species_name limit 0 = Inr []"
  shows "fetch_all_gbif_data env species_name limit =
           Some ([0], Inr (\<lparr>columns = [], rows = []\<rparr>, gbif_url species_name))"
proof -
  have "fetch_loop (occurrences_search env species_name limit) limit [] 0 [] = Some ([0], Inr [])"
    by (subst fetch_loop.simps) (simp add: assms)
  then show ?thesis
    by (simp add: fetch_all_gbif_data_def DataFrame_Nil)
qed

lemma validate_georeferencing_all_rejected:
  assumes "\<forall>r \<in> set (rows df).
             lookup_answered env (columns df) r \<and> \<not> located env (columns df) r"
    and "''decimalLatitude'' \<in> set (columns df)" and "''decimalLongitude'' \<in> set (columns df)"
  shows "validate_georeferencing env df = Inr \<lparr>columns = [], rows = []\<rparr>"
proof -
  have "georeferencing_loop env (columns df) [] (rows df)
      = Inr ([] @ filter (located env (columns df)) (rows df))"
    using assms by (intro georeferencing_loop_total) simp_all
  moreover have "filter (located env (columns df)) (rows df) = []"
    using assms(1) by (simp add: filter_empty_conv)
  ultimately show ?thesis
    by (simp add: validate_georeferencing_def DataFrame_of_rows_def)
qed

text \<open>
  C9. When the first page of the fetch is empty, the raw DataFrame has no column: the raw file
  is written, initial_cleaning raises the KeyError of the nine missing columns, and the run
  ends there. When the reverse lookups reject every row of the validated data,
  validate_georeferencing returns a DataFrame with no column: taxonomic_validation raises the
  KeyError of the missing column \<open>species\<close>, and the run ends there. In both cases the raw file
  is the only file written: no curated file and no report.
\<close>

theorem curate_data_empty_stage_is_fatal:
  "(occurrences_search env species_name limit_per_request 0 = Inr [] \<longrightarrow>
      curate_data env species_name min_date max_date limit_per_request =
        Some ([(file_stem species_name @ ''_gbif_raw_data.csv'', Csv \<lparr>columns = [], rows = []\<rparr>)],
              Inl (KeyError required_columns))) \<and>
   (fetch_all_gbif_data env species_name limit_per_request = Some (reqs, Inr (raw_data, url)) \<and>
    initial_cleaning raw_data = Inr cleaned_data \<and>
    validate_data env cleaned_data min_date max_date = Inr (validated_data, c0, c1, c2) \<and>
    (\<forall>r \<in> set (rows validated_data).
       lookup_answered env (columns validated_data) r \<and>
       \<not> located env (columns validated_data) r) \<longrightarrow>
      curate_data env species_name min_date max_date limit_per_request =
        Some ([(file_stem species_name @ ''_gbif_raw_data.csv'', Csv raw_data)],
              Inl (KeyError [''species''])))"
proof (intro conjI impI)
  assume "occurrences_search env species_name limit_per_request 0 = Inr []"
  from fetch_all_gbif_data_nothing [OF this]
  show "curate_data env species_name min_date max_date limit_per_request =
        Some ([(file_stem species_name @ ''_gbif_raw_data.csv'', Csv \<lparr>columns = [], rows = []\<rparr>)],
              Inl (KeyError required_columns))"
    by (simp add: curate_data_def initial_cleaning_no_columns)
next
  assume a: "fetch_all_gbif_data env species_name limit_per_request
        = Some (reqs, Inr (raw_data, url)) \<and>
    initial_cleaning raw_data = Inr cleaned_data \<and>
    validate_data env cleaned_data min_date max_date = Inr (validated_data, c0, c1, c2) \<and>
    (\<forall>r \<in> set (rows validated_data).
       lookup_answered env (columns validated_data) r \<and>
       \<not> located env (columns validated_data) r)"
  then have fetch: "fetch_all_gbif_data env species_name limit_per_request
        = Some (reqs, Inr (raw_data, url))"
    and clean: "initial_cleaning raw_data = Inr cleaned_data"
    and valid: "validate_data env cleaned_data min_date max_date
        = Inr (validated_data, c0, c1, c2)"
    and rejected: "\<forall>r \<in> set (rows validated_data).
       lookup_answered env (columns validated_data) r \<and>
       \<not> located env (columns validated_data) r"
    by simp_all
  have "columns validated_data = columns cleaned_data"
    using validate_data_Inr [OF valid] by simp
  moreover have "''decimalLatitude'' \<in> set (columns cleaned_data)"
    "''decimalLongitude'' \<in> set (columns cleaned_data)"
    using validate_data_Inr [OF valid] by simp_all
  ultimately have geo: "validate_georeferencing env validated_data
      = Inr \<lparr>columns = [], rows = []\<rparr>"
    using rejected by (intro validate_georeferencing_all_rejected) simp_all
  show "curate_data env species_name min_date max_date limit_per_request =
        Some ([(file_stem species_name @ ''_gbif_raw_data.csv'', Csv raw_data)],
              Inl (KeyError [''species'']))"
    by (simp add: curate_data_def fetch clean valid geo taxonomic_validation_no_columns)
qed

lemma empty_first_page: "occurrences_search empty_services ''Panthera onca'' 5000 0 = Inr []"
  by code_simp

lemma timeout_fetch:
  "fetch_all_gbif_data timeout_services ''Panthera onca'' 5000 =
     Some ([0, 5000],
           Inr (DataFrame example_records,
                ''https://www.gbif.org/occurrence/search?scientificName=Panthera%20onca''))"
  by code_simp

lemma timeout_validate_data:
  "validate_data timeout_services example_cleaned 20000101 20231231
     = Inr (example_validated, 6, 5, 4)"
  by code_simp

lemma timeout_all_rejected:
  "list_all (\<lambda>r. lookup_answered timeout_services (columns example_validated) r \<and>
              \<not> located timeout_services (columns example_validated) r)
     (rows example_validated)"
  by code_simp

lemma example_file_stem: "file_stem ''Panthera onca'' = ''Panthera_onca''"
  by code_simp

theorem curate_data_empty_stage_is_fatal_witness:
  "occurrences_search empty_services ''Panthera onca'' 5000 0 = Inr [] \<and>
   curate_data empty_services ''Panthera onca'' 20000101 20231231 5000 =
     Some ([(''Panthera_onca_gbif_raw_data.csv'', Csv \<lparr>columns = [], rows = []\<rparr>)],
           Inl (KeyError required_columns)) \<and>
   fetch_all_gbif_data timeout_services ''Panthera onca'' 5000 =
     Some ([0, 5000],
           Inr (DataFrame example_records,
                ''https://www.gbif.org/occurrence/search?scientificName=Panthera%20onca'')) \<and>
   initial_cleaning (DataFrame example_records) = Inr example_cleaned \<and>
   validate_data timeout_services example_cleaned 20000101 20231231
     = Inr (example_validated, 6, 5, 4) \<and>
   list_all (\<lambda>r. lookup_answered timeout_services (columns example_validated) r \<and>
              \<not> located timeout_services (columns example_validated) r)
     (rows example_validated) \<and>
   curate_data timeout_services ''Panthera onca'' 20000101 20231231 5000 =
     Some ([(''Panthera_onca_gbif_raw_data.csv'', Csv (DataFrame example_records))],
           Inl (KeyError [''species'']))"
  using curate_data_empty_stage_is_fatal
      [where env = empty_services and species_name = "''Panthera onca''"
         and limit_per_request = 5000 and min_date = 20000101 and max_date = 20231231]
    curate_data_empty_stage_is_fatal
      [where env = timeout_services and species_name = "''Panthera onca''"
         and limit_per_request = 5000 and min_date = 20000101 and max_date = 20231231
         and reqs = "[0, 5000]" and raw_data = "DataFrame example_records"
         and url = "''https://www.gbif.org/occurrence/search?scientificName=Panthera%20onca''"
         and cleaned_data = example_cleaned and validated_data = example_validated
         and ?c0.0 = 6 and ?c1.0 = 5 and ?c2.0 = 4]
    empty_first_page timeout_fetch example_initial_cleaning timeout_validate_data
    timeout_all_rejected example_file_stem
  by (simp add: list_all_iff)

end
